theory Spec2Isabelle
  imports Complex_Main "HOL-Library.Word" "HOL-Library.Sublist"
begin

section \<open>The chat route of the RAG chatbot (app/api/chat/route.ts)\<close>

text \<open>
  The route resolves the query of a request, retrieves evidence rows through a
  similarity search, normalises the conversation history, assembles the prompt and
  asks the model. The functions of the route are embedded one by one, under their
  own names. The three outside services (embedding, similarity search, completion)
  are parameters of the model, and every call made to them is recorded in a log.
\<close>

subsection \<open>JavaScript strings\<close>

text \<open>
  A JavaScript string is a sequence of UTF-16 code units: \<open>length\<close>, \<open>slice\<close> and
  \<open>trim\<close> all count code units. ASCII literals of the source are written with
  \<open>ascii\<close>; the Japanese literals are given by their code units.
\<close>

type_synonym jsstring = "16 word list"

definition ascii :: "string \<Rightarrow> jsstring" where
  "ascii s = map (\<lambda>c. word_of_nat (of_char c)) s"

text \<open>
  \<open>String.prototype.trim\<close> removes WhiteSpace and LineTerminator code points from
  both ends: TAB, LF, VT, FF, CR, SPACE, NBSP, U+1680, U+2000 to U+200A, U+2028,
  U+2029, U+202F, U+205F, U+3000 and U+FEFF. All of them are single code units.
\<close>

definition is_ws :: "16 word \<Rightarrow> bool" where
  "is_ws c = (c = 0x9 \<or> c = 0xA \<or> c = 0xB \<or> c = 0xC \<or> c = 0xD \<or> c = 0x20 \<or> c = 0xA0
     \<or> c = 0x1680 \<or> (0x2000 \<le> c \<and> c \<le> 0x200A) \<or> c = 0x2028 \<or> c = 0x2029
     \<or> c = 0x202F \<or> c = 0x205F \<or> c = 0x3000 \<or> c = 0xFEFF)"

definition trim :: "jsstring \<Rightarrow> jsstring" where
  "trim s = rev (dropWhile is_ws (rev (dropWhile is_ws s)))"

text \<open>\<open>xs.join(sep)\<close> on an array of strings.\<close>

fun join :: "jsstring \<Rightarrow> jsstring list \<Rightarrow> jsstring" where
  "join sep [] = []"
| "join sep [x] = x"
| "join sep (x # y # ys) = x @ sep @ join sep (y # ys)"

text \<open>
  The decimal digits of a non-negative integer, as a template literal renders the
  number \<open>i + 1\<close> of an array index (an array has fewer than \<open>2^32\<close> elements, and
  JavaScript prints integers of that size in plain decimal).
\<close>

fun decimal :: "nat \<Rightarrow> jsstring" where
  "decimal n =
     (if n < 10 then [word_of_nat (48 + n)]
      else decimal (n div 10) @ [word_of_nat (48 + n mod 10)])"

declare decimal.simps [simp del]

text \<open>
  \<open>xs.slice(start)\<close> for an integral \<open>start\<close>: a negative start counts from the end,
  and the start is clamped to the array. In particular \<open>slice(-0)\<close> is \<open>slice(0)\<close>.
\<close>

definition slice_from :: "int \<Rightarrow> 'a list \<Rightarrow> 'a list" where
  "slice_from start xs =
     (let len = int (length xs);
          k = (if start < 0 then max (len + start) 0 else min start len)
      in drop (nat k) xs)"

text \<open>The operator \<open>a ?? b\<close>: \<open>b\<close> when \<open>a\<close> is null or undefined, else \<open>a\<close>.\<close>

definition nullish :: "'a option \<Rightarrow> 'a option \<Rightarrow> 'a option" where
  "nullish a b = (case a of Some x \<Rightarrow> Some x | None \<Rightarrow> b)"

text \<open>\<open>String(a ?? "")\<close> on a string that may be null or undefined.\<close>

definition or_empty :: "jsstring option \<Rightarrow> jsstring" where
  "or_empty a = (case a of Some s \<Rightarrow> s | None \<Rightarrow> [])"

subsection \<open>Request data\<close>

text \<open>
  \<open>ClientMsg\<close> is \<open>{ role, content: string }\<close>. The body is parsed JSON that is only
  cast to \<open>ChatBody\<close>, and the route guards against what the cast does not check:
  an entry of \<open>messages\<close> may be null (\<open>m?.role\<close>, \<open>m && ...\<close>), its role may be any
  string, and its content may be null or absent (\<open>m.content ?? ""\<close>). A message as
  received therefore has an optional content, and \<open>messages\<close> holds optional
  entries. Numbers are the finite numbers of JSON, taken as rationals.
\<close>

record 'c Msg =
  role :: jsstring
  content :: 'c

type_synonym ClientMsg = "jsstring Msg"

type_synonym ReceivedMsg = "jsstring option Msg"

record ChatBody =
  question :: "jsstring option"
  message :: "jsstring option"
  top_k :: "rat option"
  messages :: "ReceivedMsg option list option"

subsection \<open>Query Resolver: lastUserFromHistory\<close>

text \<open>The predicate of \<open>find\<close>: \<open>m?.role === "user"\<close>.\<close>

definition is_user :: "ReceivedMsg option \<Rightarrow> bool" where
  "is_user m = (case m of None \<Rightarrow> False | Some m' \<Rightarrow> role m' = ascii ''user'')"

text \<open>\<open>lastUser?.content\<close> on the result of \<open>find\<close>.\<close>

definition content_of :: "ReceivedMsg option option \<Rightarrow> jsstring option" where
  "content_of found = (case found of Some (Some m) \<Rightarrow> content m | _ \<Rightarrow> None)"

text \<open>The last line of the function: \<open>String(body.question ?? body.message ?? "").trim()\<close>.\<close>

definition legacy_query :: "ChatBody \<Rightarrow> jsstring" where
  "legacy_query body = trim (or_empty (nullish (question body) (message body)))"

definition lastUserFromHistory :: "ChatBody \<Rightarrow> jsstring" where
  "lastUserFromHistory body =
     (case messages body of
        None \<Rightarrow> legacy_query body
      | Some ms \<Rightarrow>
          if ms = [] then legacy_query body
          else
            (let lastUser = find is_user (rev ms);
                 q = trim (or_empty (content_of lastUser))
             in if q \<noteq> [] then q else legacy_query body))"

subsection \<open>History Normalizer: normalizeHistory\<close>

text \<open>The first filter: \<open>m && (m.role === "user" || m.role === "assistant")\<close>.\<close>

definition role_ok :: "ReceivedMsg option \<Rightarrow> bool" where
  "role_ok m =
     (case m of None \<Rightarrow> False
      | Some m' \<Rightarrow> role m' = ascii ''user'' \<or> role m' = ascii ''assistant'')"

text \<open>The map: \<open>{ role: m.role, content: String(m.content ?? "").slice(0, 4000) }\<close>.\<close>

definition clip :: "ReceivedMsg option \<Rightarrow> ClientMsg" where
  "clip m =
     (case m of
        Some m' \<Rightarrow> \<lparr>role = role m', content = take 4000 (or_empty (content m'))\<rparr>
      | None \<Rightarrow> \<lparr>role = [], content = []\<rparr>)"

text \<open>
  The entries that reach \<open>clip\<close> have passed \<open>role_ok\<close>, so its second case is
  never taken. \<open>cleaned\<close> is the constant of that name in the source.
\<close>

definition cleaned :: "ChatBody \<Rightarrow> ClientMsg list" where
  "cleaned body =
     (let raw = (case messages body of Some ms \<Rightarrow> ms | None \<Rightarrow> [])
      in filter (\<lambda>m. length (trim (content m)) > 0) (map clip (filter role_ok raw)))"

definition normalizeHistory :: "ChatBody \<Rightarrow> int \<Rightarrow> ClientMsg list" where
  "normalizeHistory body maxTurns = slice_from (- maxTurns) (cleaned body)"

subsection \<open>Evidence Retriever: the normalisation of searchSupabase\<close>

text \<open>
  A row of the backend, with the fields the route reads. A field that is absent or
  null is \<open>None\<close>. The fields carry the prefix \<open>row_\<close>; \<open>row_content\<close> is
  \<open>row.content\<close>.
\<close>

record Row =
  row_content :: "jsstring option"
  row_text :: "jsstring option"
  row_chunk :: "jsstring option"
  row_body :: "jsstring option"
  row_page_text :: "jsstring option"
  row_document :: "jsstring option"
  row_source :: "jsstring option"
  row_url :: "jsstring option"
  row_source_url :: "jsstring option"
  row_page_url :: "jsstring option"
  row_doc_url :: "jsstring option"
  row_path :: "jsstring option"
  row_similarity :: "rat option"
  row_score :: "rat option"

text \<open>
  \<open>Retrieved\<close> is \<open>{ text, source, similarity }\<close>; the prompt assembler receives the
  records without the similarity, \<open>{ text, source }\<close>.
\<close>

record Context =
  "text" :: jsstring
  source :: jsstring

record Retrieved = Context +
  similarity :: rat

text \<open>The function mapped over the rows.\<close>

definition normalizeRow :: "Row \<Rightarrow> Retrieved" where
  "normalizeRow row =
     \<lparr>text = trim (or_empty
        (nullish (nullish (nullish (nullish (nullish (row_content row) (row_text row))
           (row_chunk row)) (row_body row)) (row_page_text row)) (row_document row))),
      source = trim (or_empty
        (nullish (nullish (nullish (nullish (nullish (row_source row) (row_url row))
           (row_source_url row)) (row_page_url row)) (row_doc_url row)) (row_path row))),
      similarity =
        (case nullish (row_similarity row) (row_score row) of Some s \<Rightarrow> s | None \<Rightarrow> 0)\<rparr>"

text \<open>The value \<open>searchSupabase\<close> returns for the rows of a successful search.\<close>

definition normalizeRows :: "Row list \<Rightarrow> Retrieved list" where
  "normalizeRows rows = filter (\<lambda>r. length (text r) > 0) (map normalizeRow rows)"

subsection \<open>Prompt Assembler: buildMessagesWithHistory\<close>

text \<open>
  The constant \<open>system\<close> of the source: the grounding policy, five lines of
  Japanese (answer from the context only, say "unknown" when the context does not
  support an answer, read "this" and "that" through the history, keep facts in the
  context, answer concretely in Japanese).
\<close>

definition system :: jsstring where
  "system = [
     0x3042, 0x306A, 0x305F, 0x306F, 0x4E0E, 0x3048, 0x3089, 0x308C, 0x305F, 0x30B3,
     0x30F3, 0x30C6, 0x30AD, 0x30B9, 0x30C8, 0x306B, 0x57FA, 0x3065, 0x3044, 0x3066,
     0x56DE, 0x7B54, 0x3059, 0x308B, 0x30A2, 0x30B7, 0x30B9, 0x30BF, 0x30F3, 0x30C8,
     0x3067, 0x3059, 0x3002, 0x000A, 0x002D, 0x0020, 0x6839, 0x62E0, 0x304C, 0x30B3,
     0x30F3, 0x30C6, 0x30AD, 0x30B9, 0x30C8, 0x306B, 0x7121, 0x3044, 0x5185, 0x5BB9,
     0x306F, 0x63A8, 0x6E2C, 0x3057, 0x306A, 0x3044, 0x3067, 0x300C, 0x4E0D, 0x660E,
     0x300D, 0x300C, 0x8CC7, 0x6599, 0x5185, 0x3067, 0x306F, 0x7279, 0x5B9A, 0x3067,
     0x304D, 0x307E, 0x305B, 0x3093, 0x300D, 0x3068, 0x7B54, 0x3048, 0x3066, 0x304F,
     0x3060, 0x3055, 0x3044, 0x3002, 0x000A, 0x002D, 0x0020, 0x30E6, 0x30FC, 0x30B6,
     0x30FC, 0x306E, 0x300C, 0x3053, 0x306E, 0x4E2D, 0x3067, 0x300D, 0x300C, 0x305D,
     0x308C, 0x300D, 0x300C, 0x3055, 0x3063, 0x304D, 0x306E, 0x300D, 0x306A, 0x3069,
     0x306F, 0x4F1A, 0x8A71, 0x5C65, 0x6B74, 0x3092, 0x53C2, 0x7167, 0x3057, 0x3066,
     0x89E3, 0x91C8, 0x3057, 0x3066, 0x304F, 0x3060, 0x3055, 0x3044, 0x3002, 0x000A,
     0x002D, 0x0020, 0x305F, 0x3060, 0x3057, 0x201C, 0x4E8B, 0x5B9F, 0x306E, 0x6839,
     0x62E0, 0x201D, 0x306F, 0x5FC5, 0x305A, 0x30B3, 0x30F3, 0x30C6, 0x30AD, 0x30B9,
     0x30C8, 0x306B, 0x7F6E, 0x3044, 0x3066, 0x304F, 0x3060, 0x3055, 0x3044, 0xFF08,
     0x5C65, 0x6B74, 0x306F, 0x610F, 0x56F3, 0x89E3, 0x91C8, 0x7528, 0xFF09, 0x3002,
     0x000A, 0x002D, 0x0020, 0x56DE, 0x7B54, 0x306F, 0x65E5, 0x672C, 0x8A9E, 0x3067,
     0x3001, 0x3067, 0x304D, 0x308B, 0x3060, 0x3051, 0x5177, 0x4F53, 0x7684, 0x306B,
     0x3002, 0x4F1A, 0x793E, 0x540D, 0x304C, 0x30B3, 0x30F3, 0x30C6, 0x30AD, 0x30B9,
     0x30C8, 0x5185, 0x306B, 0x660E, 0x8A18, 0x3055, 0x308C, 0x3066, 0x3044, 0x308C,
     0x3070, 0x5217, 0x6319, 0x3057, 0x3066, 0x304F, 0x3060, 0x3055, 0x3044, 0x3002]"

text \<open>
  The fixed pieces of the template \<open>finalUser\<close>: the heading "# context" and a line
  feed; the placeholder "(no context)"; a blank line, the heading "# this question"
  and a line feed; a blank line, the heading "# answer (Japanese)" and a line feed.
\<close>

definition heading_context :: jsstring where
  "heading_context =
     [0x0023, 0x0020, 0x30B3, 0x30F3, 0x30C6, 0x30AD, 0x30B9, 0x30C8, 0x000A]"

definition no_context :: jsstring where
  "no_context =
     [0x0028, 0x30B3, 0x30F3, 0x30C6, 0x30AD, 0x30B9, 0x30C8, 0x306A, 0x3057, 0x0029]"

definition heading_question :: jsstring where
  "heading_question =
     [0x000A, 0x000A, 0x0023, 0x0020, 0x4ECA, 0x56DE, 0x306E, 0x8CEA, 0x554F, 0x000A]"

definition heading_answer :: jsstring where
  "heading_answer =
     [0x000A, 0x000A, 0x0023, 0x0020, 0x56DE, 0x7B54, 0xFF08, 0x65E5, 0x672C, 0x8A9E,
      0xFF09, 0x000A]"

text \<open>The entry of the record at array index \<open>i\<close>, trimmed as the source trims it.\<close>

definition entry :: "nat \<Rightarrow> Context \<Rightarrow> jsstring" where
  "entry i c =
     trim (ascii ''[#'' @ decimal (i + 1) @ ascii ''] source: '' @ source c
             @ [0xA] @ text c)"

definition ctx :: "Context list \<Rightarrow> jsstring" where
  "ctx contexts = join [0xA, 0xA] (map (\<lambda>(i, c). entry i c) (enumerate 0 contexts))"

definition finalUser :: "jsstring \<Rightarrow> Context list \<Rightarrow> jsstring" where
  "finalUser q contexts =
     heading_context @ (if ctx contexts \<noteq> [] then ctx contexts else no_context)
       @ heading_question @ q @ heading_answer"

definition buildMessagesWithHistory ::
    "jsstring \<Rightarrow> ClientMsg list \<Rightarrow> Context list \<Rightarrow> ClientMsg list" where
  "buildMessagesWithHistory q history contexts =
     [\<lparr>role = ascii ''system'', content = system\<rparr>]
       @ map (\<lambda>m. \<lparr>role = role m, content = content m\<rparr>) history
       @ [\<lparr>role = ascii ''user'', content = finalUser q contexts\<rparr>]"

subsection \<open>The outside services\<close>

text \<open>
  A thrown error has a name and a message. The embedding service answers with a
  vector or throws; the similarity search answers with \<open>{ data, error }\<close> (the
  message of the error, when there is one) or throws; the completion service
  answers with its choices or throws. Of a completion the route reads
  \<open>choices[0]?.message?.content\<close>, each level of which may be missing.
\<close>

datatype js_error = JsError (err_name: jsstring) (err_message: jsstring)

record RpcArgs =
  query_embedding :: "rat list"
  match_count :: rat
  match_threshold :: "rat option"

record RpcResult =
  rpc_data :: "Row list option"
  rpc_error :: "jsstring option"

record ChatRequest =
  chat_model :: jsstring
  chat_messages :: "ClientMsg list"
  temperature :: rat

datatype Choice = Choice (choice_message: "jsstring option option")

record Services =
  embeddings_create :: "jsstring \<Rightarrow> js_error + rat list"
  supabase_rpc :: "jsstring \<Rightarrow> RpcArgs \<Rightarrow> js_error + RpcResult"
  chat_completions_create :: "ChatRequest \<Rightarrow> js_error + Choice list"

datatype call =
  EmbeddingCall jsstring
| RpcCall jsstring RpcArgs
| ChatCall ChatRequest

text \<open>The settings read from the environment when the module is loaded.\<close>

record Config =
  RPC_NAME :: jsstring
  MATCH_THRESHOLD :: rat
  OPENAI_CHAT_MODEL :: "jsstring option"

subsection \<open>searchSupabase\<close>

definition searchSupabase ::
    "Config \<Rightarrow> Services \<Rightarrow> jsstring \<Rightarrow> rat \<Rightarrow> (js_error + Retrieved list) \<times> call list" where
  "searchSupabase cfg svc query topK =
     (case embeddings_create svc query of
        Inl e \<Rightarrow> (Inl e, [EmbeddingCall query])
      | Inr qEmb \<Rightarrow>
          (let args = \<lparr>query_embedding = qEmb, match_count = topK,
                       match_threshold =
                         (if MATCH_THRESHOLD cfg > 0 then Some (MATCH_THRESHOLD cfg)
                          else None)\<rparr>;
               calls = [EmbeddingCall query, RpcCall (RPC_NAME cfg) args]
           in case supabase_rpc svc (RPC_NAME cfg) args of
                Inl e \<Rightarrow> (Inl e, calls)
              | Inr res \<Rightarrow>
                  (case rpc_error res of
                     Some msg \<Rightarrow>
                       (Inl (JsError (ascii ''Error'')
                          (ascii ''supabase.rpc('' @ RPC_NAME cfg @ ascii '') failed: ''
                             @ msg)), calls)
                   | None \<Rightarrow>
                       (Inr (normalizeRows
                          (case rpc_data res of Some rows \<Rightarrow> rows | None \<Rightarrow> [])),
                        calls))))"

subsection \<open>Answer Synthesizer: POST\<close>

record Reference =
  ref_source :: jsstring
  ref_score :: rat

record Meta =
  meta_top_k :: rat
  meta_rpc :: jsstring
  meta_hits :: nat
  meta_threshold :: rat
  meta_used_history :: nat

record AnswerResult =
  answer :: jsstring
  references :: "Reference list"
  meta :: Meta

text \<open>
  A response is the JSON of a result (status 200) or \<open>{ error }\<close> with status 400
  or 500.
\<close>

datatype response = Answer AnswerResult | Failure nat jsstring

text \<open>\<open>Math.max(1, Math.min(Number(body.top_k ?? 20), 60))\<close>.\<close>

definition effective_top_k :: "ChatBody \<Rightarrow> rat" where
  "effective_top_k body =
     max 1 (min (case top_k body of Some k \<Rightarrow> k | None \<Rightarrow> 20) 60)"

text \<open>\<open>chat.choices[0]?.message?.content ?? ""\<close>.\<close>

definition first_content :: "Choice list \<Rightarrow> jsstring" where
  "first_content choices =
     (case choices of
        Choice (Some (Some s)) # _ \<Rightarrow> s
      | _ \<Rightarrow> [])"

text \<open>The handler of \<open>catch\<close>: status 500 with the error's name and message.\<close>

definition server_error :: "js_error \<Rightarrow> response" where
  "server_error e = Failure 500 (err_name e @ ascii '': '' @ err_message e)"

definition POST :: "Config \<Rightarrow> Services \<Rightarrow> ChatBody \<Rightarrow> response \<times> call list" where
  "POST cfg svc body =
     (let q = lastUserFromHistory body in
      if q = [] then (Failure 400 (ascii ''question (or message) is required''), [])
      else
        (let topK = effective_top_k body in
         case searchSupabase cfg svc q topK of
           (Inl e, calls) \<Rightarrow> (server_error e, calls)
         | (Inr retrieved, calls) \<Rightarrow>
             (let history = normalizeHistory body 60;
                  msgs = buildMessagesWithHistory q history
                    (map (\<lambda>r. \<lparr>text = text r, source = source r\<rparr>) retrieved);
                  request = \<lparr>chat_model =
                               (case OPENAI_CHAT_MODEL cfg of Some m \<Rightarrow> m
                                | None \<Rightarrow> ascii ''gpt-4.1-mini''),
                             chat_messages = msgs, temperature = 1 / 5\<rparr>
              in case chat_completions_create svc request of
                   Inl e \<Rightarrow> (server_error e, calls @ [ChatCall request])
                 | Inr choices \<Rightarrow>
                     (Answer
                        \<lparr>answer = first_content choices,
                         references =
                           map (\<lambda>r. \<lparr>ref_source = source r, ref_score = similarity r\<rparr>)
                             retrieved,
                         meta = \<lparr>meta_top_k = topK, meta_rpc = RPC_NAME cfg,
                                 meta_hits = length retrieved,
                                 meta_threshold = MATCH_THRESHOLD cfg,
                                 meta_used_history = length history\<rparr>\<rparr>,
                      calls @ [ChatCall request]))))"

subsection \<open>Example requests\<close>

text \<open>Concrete requests, rows and services on which the theorems below are instantiated.\<close>

definition body_hi :: ChatBody where
  "body_hi =
     \<lparr>question = Some (ascii '' q ''), message = None, top_k = None,
      messages = Some [Some \<lparr>role = ascii ''user'', content = Some (ascii '' hi '')\<rparr>,
                       Some \<lparr>role = ascii ''assistant'', content = Some (ascii ''yo'')\<rparr>]\<rparr>"

definition body_blank :: ChatBody where
  "body_blank =
     \<lparr>question = None, message = Some (ascii '' q ''), top_k = None,
      messages = Some [Some \<lparr>role = ascii ''user'', content = Some (ascii ''  '')\<rparr>]\<rparr>"

definition no_fields :: Row where
  "no_fields =
     \<lparr>row_content = None, row_text = None, row_chunk = None, row_body = None,
      row_page_text = None, row_document = None, row_source = None, row_url = None,
      row_source_url = None, row_page_url = None, row_doc_url = None, row_path = None,
      row_similarity = None, row_score = None\<rparr>"

definition row_empty_content :: Row where
  "row_empty_content = no_fields\<lparr>row_content := Some [], row_text := Some (ascii ''abc'')\<rparr>"

definition row_both :: Row where
  "row_both = no_fields\<lparr>row_content := Some (ascii ''A''), row_text := Some (ascii ''B'')\<rparr>"

definition row_page :: Row where
  "row_page = no_fields\<lparr>row_page_text := Some (ascii ''P''), row_score := Some 3\<rparr>"

definition body_padded :: ChatBody where
  "body_padded =
     \<lparr>question = None, message = None, top_k = None,
      messages = Some [Some \<lparr>role = ascii ''user'',
                             content = Some (replicate 4000 0x20 @ ascii ''x'')\<rparr>]\<rparr>"

definition body_long :: ChatBody where
  "body_long =
     \<lparr>question = None, message = None, top_k = None,
      messages = Some [Some \<lparr>role = ascii ''assistant'',
                             content = Some (replicate 4000 0x61 @ ascii ''b'')\<rparr>]\<rparr>"

definition two_records :: "Context list" where
  "two_records =
     [\<lparr>text = ascii ''A'', source = ascii ''s1''\<rparr>, \<lparr>text = ascii ''B'', source = []\<rparr>]"

definition cfg_default :: Config where
  "cfg_default =
     \<lparr>RPC_NAME = ascii ''match_documents'', MATCH_THRESHOLD = 0, OPENAI_CHAT_MODEL = None\<rparr>"

definition row_doc1 :: Row where
  "row_doc1 =
     no_fields\<lparr>row_content := Some (ascii ''X is a company.''),
               row_source := Some (ascii ''doc1''), row_similarity := Some (9 / 10)\<rparr>"

definition svc_stub :: "Choice list \<Rightarrow> Services" where
  "svc_stub choices =
     \<lparr>embeddings_create = (\<lambda>text. Inr [1, 0]),
      supabase_rpc = (\<lambda>name args. Inr \<lparr>rpc_data = Some [row_doc1], rpc_error = None\<rparr>),
      chat_completions_create = (\<lambda>request. Inr choices)\<rparr>"

definition body_what :: ChatBody where
  "body_what =
     \<lparr>question = None, message = None, top_k = Some 100,
      messages = Some [Some \<lparr>role = ascii ''user'', content = Some (ascii ''What is X?'')\<rparr>]\<rparr>"

definition body_none :: ChatBody where
  "body_none = \<lparr>question = None, message = None, top_k = None, messages = None\<rparr>"

section \<open>Properties\<close>

subsection \<open>Strings and search\<close>

lemma ascii_user: "ascii ''user'' = [0x75, 0x73, 0x65, 0x72]"
  by (simp add: ascii_def)

lemma ascii_assistant: "ascii ''assistant'' = [0x61, 0x73, 0x73, 0x69, 0x73, 0x74, 0x61, 0x6E, 0x74]"
  by (simp add: ascii_def)

lemma find_app: "find P (xs @ ys) = (case find P xs of None \<Rightarrow> find P ys | Some x \<Rightarrow> Some x)"
  by (induction xs) auto

lemma find_none_list_all: "list_all (\<lambda>x. \<not> P x) xs \<Longrightarrow> find P xs = None"
  by (induction xs) auto

lemma find_last_user:
  assumes "is_user x" and "list_all (\<lambda>y. \<not> is_user y) newer"
  shows "find is_user (rev (older @ [x] @ newer)) = Some x"
proof -
  have "list_all (\<lambda>y. \<not> is_user y) (rev newer)"
    using assms(2) by (simp add: list_all_iff)
  then have "find is_user (rev newer) = None"
    by (rule find_none_list_all)
  then show ?thesis
    using assms(1) by (simp add: find_app)
qed

lemma trim_Nil [simp]: "trim [] = []"
  by (simp add: trim_def)

lemma trim_all_ws: "list_all is_ws s \<Longrightarrow> trim s = []"
proof -
  assume "list_all is_ws s"
  then have "dropWhile is_ws s = []"
    by (simp add: list_all_iff dropWhile_eq_Nil_conv)
  then show ?thesis
    by (simp only: trim_def rev.simps dropWhile.simps)
qed

lemma trim_empty_iff: "trim s = [] \<longleftrightarrow> list_all is_ws s"
proof
  assume "trim s = []"
  then have "dropWhile is_ws (rev (dropWhile is_ws s)) = []"
    by (simp add: trim_def)
  then have a: "\<forall>c\<in>set (dropWhile is_ws s). is_ws c"
    by (simp add: dropWhile_eq_Nil_conv)
  have "dropWhile is_ws s = []"
  proof (rule ccontr)
    assume n: "dropWhile is_ws s \<noteq> []"
    then have "\<not> is_ws (hd (dropWhile is_ws s))"
      by (rule hd_dropWhile)
    moreover have "hd (dropWhile is_ws s) \<in> set (dropWhile is_ws s)"
      using n by simp
    ultimately show False
      using a by blast
  qed
  then show "list_all is_ws s"
    by (simp add: dropWhile_eq_Nil_conv list_all_iff)
next
  assume "list_all is_ws s"
  then show "trim s = []"
    by (rule trim_all_ws)
qed

lemma nullish_Some [simp]: "nullish (Some x) b = Some x"
  by (simp add: nullish_def)

lemma nullish_None [simp]: "nullish None b = b"
  by (simp add: nullish_def)

lemma last_dropWhile: "dropWhile P xs \<noteq> [] \<Longrightarrow> last (dropWhile P xs) = last xs"
  by (induction xs) (auto split: if_splits)

lemma trim_ends:
  assumes "trim s \<noteq> []"
  shows "\<not> is_ws (hd (trim s))" and "\<not> is_ws (last (trim s))"
proof -
  let ?d = "dropWhile is_ws s"
  let ?e = "dropWhile is_ws (rev ?d)"
  from assms have e: "?e \<noteq> []"
    by (simp add: trim_def)
  have d: "?d \<noteq> []"
  proof
    assume "?d = []"
    then have "?e = []"
      by (simp only: rev.simps dropWhile.simps)
    with e show False
      by contradiction
  qed
  have "hd (trim s) = last ?e"
    using e by (simp add: trim_def hd_rev)
  also have "\<dots> = last (rev ?d)"
    using e by (rule last_dropWhile)
  also have "\<dots> = hd ?d"
    using d by (simp add: last_rev)
  finally have "hd (trim s) = hd ?d" .
  moreover have "\<not> is_ws (hd ?d)"
    using d by (rule hd_dropWhile)
  ultimately show "\<not> is_ws (hd (trim s))"
    by simp
  have "last (trim s) = hd ?e"
    using e by (simp add: trim_def last_rev)
  moreover have "\<not> is_ws (hd ?e)"
    using e by (rule hd_dropWhile)
  ultimately show "\<not> is_ws (last (trim s))"
    by simp
qed

lemma trim_noop:
  assumes "s \<noteq> []" and "\<not> is_ws (hd s)" and "\<not> is_ws (last s)"
  shows "trim s = s"
proof -
  from assms(1,2) have "dropWhile is_ws s = s"
    by (cases s) simp_all
  moreover from assms(1,3) have "dropWhile is_ws (rev s) = rev s"
    by (cases "rev s") (simp_all add: hd_rev [symmetric])
  ultimately show ?thesis
    by (simp add: trim_def)
qed

lemma trim_idem: "trim (trim s) = trim s"
proof (cases "trim s = []")
  case True
  then show ?thesis by simp
next
  case False
  then show ?thesis
    by (intro trim_noop trim_ends)
qed

subsection \<open>Query Resolver\<close>

text \<open>
  C1. When \<open>messages\<close> holds a turn of role "user" and the most recent such turn has
  content that is not empty once trimmed, \<open>lastUserFromHistory\<close> returns that
  content, trimmed. When \<open>messages\<close> is absent or empty, holds no user turn, or the
  content of the most recent user turn is empty or white space only, it returns the
  trimmed \<open>question\<close>, and the trimmed \<open>message\<close> when \<open>question\<close> is absent (the
  empty string when both are). The most recent user turn is the one after which no
  entry has role "user"; null entries and null contents are as in the source.
\<close>

theorem lastUserFromHistory_resolves:
  "(messages body = Some (older @ [Some m] @ newer) \<and> role m = ascii ''user''
      \<and> list_all (\<lambda>x. \<not> is_user x) newer \<and> trim (or_empty (content m)) \<noteq> []
    \<longrightarrow> lastUserFromHistory body = trim (or_empty (content m)))
   \<and> ((messages body = None \<or> messages body = Some []
        \<or> (\<exists>ms. messages body = Some ms \<and> list_all (\<lambda>x. \<not> is_user x) ms)
        \<or> (\<exists>older m newer. messages body = Some (older @ [Some m] @ newer)
              \<and> role m = ascii ''user'' \<and> list_all (\<lambda>x. \<not> is_user x) newer
              \<and> trim (or_empty (content m)) = []))
    \<longrightarrow> lastUserFromHistory body =
          trim (case question body of Some s \<Rightarrow> s
                | None \<Rightarrow> (case message body of Some s \<Rightarrow> s | None \<Rightarrow> [])))"
proof (intro conjI impI)
  assume h: "messages body = Some (older @ [Some m] @ newer) \<and> role m = ascii ''user''
      \<and> list_all (\<lambda>x. \<not> is_user x) newer \<and> trim (or_empty (content m)) \<noteq> []"
  then have "is_user (Some m)"
    by (simp add: is_user_def)
  with h have "find is_user (rev (older @ [Some m] @ newer)) = Some (Some m)"
    by (simp only: find_last_user)
  with h show "lastUserFromHistory body = trim (or_empty (content m))"
    by (simp add: lastUserFromHistory_def content_of_def Let_def)
next
  have legacy: "legacy_query body =
      trim (case question body of Some s \<Rightarrow> s
            | None \<Rightarrow> (case message body of Some s \<Rightarrow> s | None \<Rightarrow> []))"
    by (simp add: legacy_query_def nullish_def or_empty_def split: option.splits)
  assume "messages body = None \<or> messages body = Some []
        \<or> (\<exists>ms. messages body = Some ms \<and> list_all (\<lambda>x. \<not> is_user x) ms)
        \<or> (\<exists>older m newer. messages body = Some (older @ [Some m] @ newer)
              \<and> role m = ascii ''user'' \<and> list_all (\<lambda>x. \<not> is_user x) newer
              \<and> trim (or_empty (content m)) = [])"
  then have "lastUserFromHistory body = legacy_query body"
  proof (elim disjE exE conjE)
    assume "messages body = None"
    then show ?thesis by (simp add: lastUserFromHistory_def)
  next
    assume "messages body = Some []"
    then show ?thesis by (simp add: lastUserFromHistory_def)
  next
    fix ms
    assume nouser: "messages body = Some ms" "list_all (\<lambda>x. \<not> is_user x) ms"
    then have "list_all (\<lambda>x. \<not> is_user x) (rev ms)"
      by (simp add: list_all_iff)
    then have "find is_user (rev ms) = None"
      by (rule find_none_list_all)
    with nouser show ?thesis
      by (simp add: lastUserFromHistory_def content_of_def or_empty_def Let_def)
  next
    fix pre u post
    assume blank: "messages body = Some (pre @ [Some u] @ post)"
        "role u = ascii ''user''" "list_all (\<lambda>x. \<not> is_user x) post"
        "trim (or_empty (content u)) = []"
    then have "is_user (Some u)"
      by (simp add: is_user_def)
    with blank have "find is_user (rev (pre @ [Some u] @ post)) = Some (Some u)"
      by (simp only: find_last_user)
    with blank show ?thesis
      by (simp add: lastUserFromHistory_def content_of_def Let_def)
  qed
  with legacy show "lastUserFromHistory body =
      trim (case question body of Some s \<Rightarrow> s
            | None \<Rightarrow> (case message body of Some s \<Rightarrow> s | None \<Rightarrow> []))"
    by simp
qed

theorem lastUserFromHistory_resolves_witness:
  "lastUserFromHistory body_hi = ascii ''hi'' \<and> lastUserFromHistory body_blank = ascii ''q''"
proof
  let ?u = "\<lparr>role = ascii ''user'', content = Some (ascii '' hi '')\<rparr>"
  let ?a = "Some \<lparr>role = ascii ''assistant'', content = Some (ascii ''yo'')\<rparr>"
  have t: "trim (ascii '' hi '') = ascii ''hi''"
    by (simp add: trim_def is_ws_def ascii_def)
  have "ascii ''hi'' \<noteq> []"
    by (simp add: ascii_def)
  with t have h: "messages body_hi = Some ([] @ [Some ?u] @ [?a]) \<and> role ?u = ascii ''user''
      \<and> list_all (\<lambda>x. \<not> is_user x) [?a] \<and> trim (or_empty (content ?u)) \<noteq> []"
    by (simp add: body_hi_def is_user_def or_empty_def ascii_user ascii_assistant)
  from lastUserFromHistory_resolves [THEN conjunct1, rule_format, OF h] t
  show "lastUserFromHistory body_hi = ascii ''hi''"
    by (simp add: or_empty_def)
next
  let ?u = "\<lparr>role = ascii ''user'', content = Some (ascii ''  '')\<rparr>"
  have t: "trim (ascii ''  '') = []" "trim (ascii '' q '') = ascii ''q''"
    by (simp_all add: trim_def is_ws_def ascii_def)
  then have "messages body_blank = Some ([] @ [Some ?u] @ []) \<and> role ?u = ascii ''user''
      \<and> list_all (\<lambda>x. \<not> is_user x) [] \<and> trim (or_empty (content ?u)) = []"
    by (simp add: body_blank_def or_empty_def)
  then have h: "messages body_blank = None \<or> messages body_blank = Some []
        \<or> (\<exists>ms. messages body_blank = Some ms \<and> list_all (\<lambda>x. \<not> is_user x) ms)
        \<or> (\<exists>older m newer. messages body_blank = Some (older @ [Some m] @ newer)
              \<and> role m = ascii ''user'' \<and> list_all (\<lambda>x. \<not> is_user x) newer
              \<and> trim (or_empty (content m)) = [])"
    by blast
  from lastUserFromHistory_resolves [THEN conjunct2, rule_format, OF h] t
  show "lastUserFromHistory body_blank = ascii ''q''"
    by (simp add: body_blank_def)
qed

subsection \<open>Evidence Retriever\<close>

lemma text_normalizeRow:
  "text (normalizeRow row) =
     trim (case find (\<lambda>f. f \<noteq> None)
                  [row_content row, row_text row, row_chunk row, row_body row,
                   row_page_text row, row_document row]
           of Some (Some s) \<Rightarrow> s | _ \<Rightarrow> [])"
  by (simp add: normalizeRow_def or_empty_def nullish_def split: option.splits)

text \<open>
  C3, as the claim states it, fails: the fields are chosen with \<open>??\<close>, which only
  passes over a field that is null or absent. A row whose \<open>content\<close> is the empty
  string and whose \<open>text\<close> is "abc" gets the empty text, not "abc", and is then
  dropped.
\<close>

theorem normalizeRow_empty_content_counterexample:
  "text (normalizeRow row_empty_content) = []
   \<and> text (normalizeRow row_empty_content) \<noteq> trim (ascii ''abc'')
   \<and> normalizeRows [row_empty_content] = []"
  by (simp add: normalizeRows_def normalizeRow_def row_empty_content_def no_fields_def
      or_empty_def trim_def is_ws_def ascii_def)

text \<open>
  C3, amended. The text of a row is the first field among \<open>content\<close>, \<open>text\<close>,
  \<open>chunk\<close>, \<open>body\<close>, \<open>page_text\<close>, \<open>document\<close> that is present (not null or
  absent), trimmed, also when that field is the empty string; the source is the
  first present field among \<open>source\<close>, \<open>url\<close>, \<open>source_url\<close>, \<open>page_url\<close>,
  \<open>doc_url\<close>, \<open>path\<close>, trimmed; the score is \<open>similarity\<close>, else \<open>score\<close>, else 0.
  The empty string stands where no field is present. In particular \<open>content\<close> wins
  whenever it is present, and a row with only \<open>page_text\<close> among the first five
  text fields uses it.
\<close>

theorem normalizeRow_first_present:
  "text (normalizeRow row) =
     trim (case find (\<lambda>f. f \<noteq> None)
                  [row_content row, row_text row, row_chunk row, row_body row,
                   row_page_text row, row_document row]
           of Some (Some s) \<Rightarrow> s | _ \<Rightarrow> [])
   \<and> source (normalizeRow row) =
     trim (case find (\<lambda>f. f \<noteq> None)
                  [row_source row, row_url row, row_source_url row, row_page_url row,
                   row_doc_url row, row_path row]
           of Some (Some s) \<Rightarrow> s | _ \<Rightarrow> [])
   \<and> similarity (normalizeRow row) =
     (case find (\<lambda>f. f \<noteq> None) [row_similarity row, row_score row]
      of Some (Some x) \<Rightarrow> x | _ \<Rightarrow> 0)
   \<and> (row_content row = Some c \<longrightarrow> text (normalizeRow row) = trim c)
   \<and> (row_content row = None \<and> row_text row = None \<and> row_chunk row = None
        \<and> row_body row = None \<and> row_page_text row = Some p
      \<longrightarrow> text (normalizeRow row) = trim p)"
proof (intro conjI impI)
  show "text (normalizeRow row) =
     trim (case find (\<lambda>f. f \<noteq> None)
                  [row_content row, row_text row, row_chunk row, row_body row,
                   row_page_text row, row_document row]
           of Some (Some s) \<Rightarrow> s | _ \<Rightarrow> [])"
    by (rule text_normalizeRow)
  show "source (normalizeRow row) =
     trim (case find (\<lambda>f. f \<noteq> None)
                  [row_source row, row_url row, row_source_url row, row_page_url row,
                   row_doc_url row, row_path row]
           of Some (Some s) \<Rightarrow> s | _ \<Rightarrow> [])"
    by (simp add: normalizeRow_def or_empty_def nullish_def split: option.splits)
  show "similarity (normalizeRow row) =
     (case find (\<lambda>f. f \<noteq> None) [row_similarity row, row_score row]
      of Some (Some x) \<Rightarrow> x | _ \<Rightarrow> 0)"
    by (cases "row_similarity row"; cases "row_score row") (simp_all add: normalizeRow_def)
  show "text (normalizeRow row) = trim c" if "row_content row = Some c"
    using that by (simp add: normalizeRow_def or_empty_def)
  show "text (normalizeRow row) = trim p"
    if "row_content row = None \<and> row_text row = None \<and> row_chunk row = None
        \<and> row_body row = None \<and> row_page_text row = Some p"
    using that by (simp add: normalizeRow_def or_empty_def)
qed


theorem normalizeRow_first_present_witness:
  "row_content row_both = Some (ascii ''A'') \<and> row_text row_both = Some (ascii ''B'')
   \<and> text (normalizeRow row_both) = ascii ''A''
   \<and> row_content row_page = None \<and> row_text row_page = None \<and> row_chunk row_page = None
   \<and> row_body row_page = None \<and> row_page_text row_page = Some (ascii ''P'')
   \<and> text (normalizeRow row_page) = ascii ''P''"
proof -
  have t: "trim (ascii ''A'') = ascii ''A''" "trim (ascii ''P'') = ascii ''P''"
    by (simp_all add: trim_def is_ws_def ascii_def)
  have a: "row_content row_both = Some (ascii ''A'')"
    by (simp add: row_both_def no_fields_def)
  have p: "row_content row_page = None \<and> row_text row_page = None \<and> row_chunk row_page = None
      \<and> row_body row_page = None \<and> row_page_text row_page = Some (ascii ''P'')"
    by (simp add: row_page_def no_fields_def)
  have "text (normalizeRow row_both) = trim (ascii ''A'')"
    using normalizeRow_first_present [of row_both "ascii ''A''"] a by blast
  moreover have "text (normalizeRow row_page) = trim (ascii ''P'')"
    using normalizeRow_first_present [of row_page _ "ascii ''P''"] p by blast
  moreover have "row_text row_both = Some (ascii ''B'')"
    by (simp add: row_both_def no_fields_def)
  ultimately show ?thesis
    using a p t by simp
qed

lemma normalizeRows_append:
  "normalizeRows (xs @ ys) = normalizeRows xs @ normalizeRows ys"
  by (simp add: normalizeRows_def)

lemma normalizeRows_Cons:
  "normalizeRows (row # rows) =
     (if text (normalizeRow row) \<noteq> [] then normalizeRow row # normalizeRows rows
      else normalizeRows rows)"
  by (simp add: normalizeRows_def)

text \<open>
  C7. Every record that \<open>searchSupabase\<close> returns has a text that is not empty and
  not white space only, and the records come from the rows in their order. A row
  is discarded exactly when its extracted text (the first present text field, or
  the empty string) is empty or white space only; otherwise its record is
  returned. The source plays no part in this: a record with the empty source is
  returned like any other.
\<close>

theorem normalizeRows_text_nonempty:
  "list_all (\<lambda>r. text r \<noteq> [] \<and> \<not> list_all is_ws (text r)) (normalizeRows rows)
   \<and> subseq (normalizeRows rows) (map normalizeRow rows)
   \<and> normalizeRows (before @ [row] @ after)
       = normalizeRows before
         @ (if list_all is_ws
                 (case find (\<lambda>f. f \<noteq> None)
                         [row_content row, row_text row, row_chunk row, row_body row,
                          row_page_text row, row_document row]
                  of Some (Some s) \<Rightarrow> s | _ \<Rightarrow> [])
            then [] else [normalizeRow row])
         @ normalizeRows after
   \<and> (text (normalizeRow row) \<noteq> [] \<and> source (normalizeRow row) = [] \<longrightarrow>
        normalizeRow row \<in> set (normalizeRows (before @ [row] @ after)))"
proof (intro conjI impI)
  have "text r \<noteq> [] \<and> \<not> list_all is_ws (text r)" if "r \<in> set (normalizeRows rows)" for r
  proof -
    from that obtain row where r: "r = normalizeRow row" and n: "text r \<noteq> []"
      by (auto simp: normalizeRows_def)
    from r have "trim (text r) = text r"
      by (simp add: normalizeRow_def trim_idem)
    with n have "trim (text r) \<noteq> []"
      by simp
    then have "\<not> list_all is_ws (text r)"
      by (simp add: trim_empty_iff)
    with n show ?thesis
      by simp
  qed
  then show "list_all (\<lambda>r. text r \<noteq> [] \<and> \<not> list_all is_ws (text r)) (normalizeRows rows)"
    by (simp add: list_all_iff)
  show "subseq (normalizeRows rows) (map normalizeRow rows)"
    by (simp add: normalizeRows_def)
  let ?extracted = "case find (\<lambda>f. f \<noteq> None)
                         [row_content row, row_text row, row_chunk row, row_body row,
                          row_page_text row, row_document row]
                  of Some (Some s) \<Rightarrow> s | _ \<Rightarrow> []"
  have "(text (normalizeRow row) = []) = list_all is_ws ?extracted"
    by (simp only: text_normalizeRow trim_empty_iff)
  then show "normalizeRows (before @ [row] @ after)
       = normalizeRows before
         @ (if list_all is_ws ?extracted then [] else [normalizeRow row])
         @ normalizeRows after"
    by (simp add: normalizeRows_append normalizeRows_Cons)
  show "normalizeRow row \<in> set (normalizeRows (before @ [row] @ after))"
    if "text (normalizeRow row) \<noteq> [] \<and> source (normalizeRow row) = []"
    using that by (simp add: normalizeRows_append normalizeRows_Cons)
qed

theorem normalizeRows_text_nonempty_witness:
  "text (normalizeRow (no_fields\<lparr>row_content := Some (ascii ''A'')\<rparr>)) \<noteq> []
   \<and> source (normalizeRow (no_fields\<lparr>row_content := Some (ascii ''A'')\<rparr>)) = []
   \<and> normalizeRows [no_fields\<lparr>row_content := Some (ascii ''  '')\<rparr>,
                     no_fields\<lparr>row_content := Some (ascii ''A'')\<rparr>]
       = [\<lparr>text = ascii ''A'', source = [], similarity = 0\<rparr>]"
proof -
  let ?blank = "no_fields\<lparr>row_content := Some (ascii ''  '')\<rparr>"
  let ?a = "no_fields\<lparr>row_content := Some (ascii ''A'')\<rparr>"
  have a: "normalizeRow ?a = \<lparr>text = ascii ''A'', source = [], similarity = 0\<rparr>"
    by (simp add: normalizeRow_def no_fields_def or_empty_def trim_def is_ws_def ascii_def)
  then have h: "text (normalizeRow ?a) \<noteq> [] \<and> source (normalizeRow ?a) = []"
    by (simp add: ascii_def)
  have "normalizeRow ?a \<in> set (normalizeRows ([?blank] @ [?a] @ []))"
    using normalizeRows_text_nonempty [of _ "[?blank]" ?a "[]"] h by blast
  moreover have "normalizeRows ([] @ [?blank] @ [?a]) = normalizeRows [] @ [] @ normalizeRows [?a]"
    using normalizeRows_text_nonempty [of _ "[]" ?blank "[?a]"]
    by (simp add: no_fields_def is_ws_def ascii_def)
  moreover have "normalizeRows [?a] = [normalizeRow ?a]"
    using h by (simp add: normalizeRows_Cons normalizeRows_def)
  moreover have "normalizeRows [] = []"
    by (simp add: normalizeRows_def)
  ultimately show ?thesis
    using a h by simp
qed

subsection \<open>History Normalizer\<close>

lemma slice_from_last:
  "1 \<le> n \<Longrightarrow> slice_from (- n) xs = drop (length xs - nat n) xs"
  by (simp add: slice_from_def Let_def max_def nat_diff_distrib' nat_add_distrib) 

lemma slice_from_zero: "slice_from 0 xs = xs"
  by (simp add: slice_from_def)

lemma set_slice_from: "set (slice_from k xs) \<subseteq> set xs"
  by (simp add: slice_from_def Let_def set_drop_subset)

lemma subseq_slice_from: "subseq (slice_from k xs) xs"
  unfolding slice_from_def Let_def by (rule suffix_imp_subseq) (rule suffix_drop)

lemma subseq_cleaned:
  "subseq (cleaned body) (map clip (case messages body of Some ms \<Rightarrow> ms | None \<Rightarrow> []))"
proof -
  let ?raw = "case messages body of Some ms \<Rightarrow> ms | None \<Rightarrow> []"
  have "subseq (cleaned body) (map clip (filter role_ok ?raw))"
    by (simp add: cleaned_def)
  moreover have "subseq (map clip (filter role_ok ?raw)) (map clip ?raw)"
    by (simp add: subseq_map)
  ultimately show ?thesis
    by (rule subseq_order.trans)
qed

lemma cleaned_member:
  assumes "t \<in> set (cleaned body)"
  shows "\<exists>m. Some m \<in> set (case messages body of Some ms \<Rightarrow> ms | None \<Rightarrow> [])
           \<and> (role m = ascii ''user'' \<or> role m = ascii ''assistant'')
           \<and> role t = role m \<and> content t = take 4000 (or_empty (content m))"
    and "trim (content t) \<noteq> []"
proof -
  let ?raw = "case messages body of Some ms \<Rightarrow> ms | None \<Rightarrow> []"
  from assms obtain e where e: "e \<in> set ?raw" "role_ok e" "t = clip e"
    and n: "trim (content t) \<noteq> []"
    by (auto simp: cleaned_def)
  from e(2) obtain m where m: "e = Some m" "role m = ascii ''user'' \<or> role m = ascii ''assistant''"
    by (auto simp: role_ok_def split: option.splits)
  with e have "Some m \<in> set ?raw" "role t = role m"
      "content t = take 4000 (or_empty (content m))"
    by (simp_all add: clip_def)
  with m(2) show "\<exists>m. Some m \<in> set ?raw
           \<and> (role m = ascii ''user'' \<or> role m = ascii ''assistant'')
           \<and> role t = role m \<and> content t = take 4000 (or_empty (content m))"
    by blast
  from n show "trim (content t) \<noteq> []" .
qed

text \<open>
  For a maximum of at least one turn the normaliser does what its name says: the
  output has at most \<open>N\<close> turns, it is a subsequence of the received turns (each
  clipped to 4000 code units), every turn in it is a user or assistant turn whose
  content is not empty once trimmed, and it is made of the last \<open>N\<close> such turns.
\<close>

lemma normalizeHistory_positive:
  assumes "1 \<le> N"
  shows "int (length (normalizeHistory body N)) \<le> N"
    and "subseq (normalizeHistory body N)
           (map clip (case messages body of Some ms \<Rightarrow> ms | None \<Rightarrow> []))"
    and "list_all (\<lambda>t. (role t = ascii ''user'' \<or> role t = ascii ''assistant'')
                        \<and> trim (content t) \<noteq> []) (normalizeHistory body N)"
    and "normalizeHistory body N = drop (length (cleaned body) - nat N) (cleaned body)"
proof -
  from assms show d: "normalizeHistory body N = drop (length (cleaned body) - nat N) (cleaned body)"
    by (simp add: normalizeHistory_def slice_from_last)
  from assms show "int (length (normalizeHistory body N)) \<le> N"
    by (simp add: d)
  have "subseq (normalizeHistory body N) (cleaned body)"
    by (simp add: normalizeHistory_def subseq_slice_from)
  then show "subseq (normalizeHistory body N)
           (map clip (case messages body of Some ms \<Rightarrow> ms | None \<Rightarrow> []))"
    using subseq_cleaned by (rule subseq_order.trans)
  have "set (normalizeHistory body N) \<subseteq> set (cleaned body)"
    by (simp add: normalizeHistory_def set_slice_from)
  then show "list_all (\<lambda>t. (role t = ascii ''user'' \<or> role t = ascii ''assistant'')
                        \<and> trim (content t) \<noteq> []) (normalizeHistory body N)"
    unfolding list_all_iff using cleaned_member by fastforce  
qed

text \<open>
  C5. The bound fails at \<open>N = 0\<close>: \<open>cleaned.slice(-0)\<close> is \<open>cleaned.slice(0)\<close>, the
  whole array. For the request whose history is a user turn " hi " and an
  assistant turn "yo" the normaliser returns two turns for the maximum 0.
\<close>

theorem normalizeHistory_zero_length:
  "length (normalizeHistory body_hi 0) = 2"
  by (simp add: normalizeHistory_def slice_from_def cleaned_def body_hi_def role_ok_def
      clip_def or_empty_def trim_def is_ws_def ascii_def)

text \<open>
  C6. For the maximum 0 the normaliser returns the whole cleaned history, not the
  empty one: on the same request both turns come back.
\<close>

theorem normalizeHistory_zero_keeps_all:
  "normalizeHistory body_hi 0 =
     [\<lparr>role = ascii ''user'', content = ascii '' hi ''\<rparr>,
      \<lparr>role = ascii ''assistant'', content = ascii ''yo''\<rparr>]"
  by (simp add: normalizeHistory_def slice_from_def cleaned_def body_hi_def role_ok_def
      clip_def or_empty_def trim_def is_ws_def ascii_def)

text \<open>
  Prompt assembly does not depend on there being a history: with no history turns
  the prompt is the system block followed directly by the final user block.
\<close>

lemma buildMessagesWithHistory_no_history:
  "buildMessagesWithHistory q [] contexts =
     [\<lparr>role = ascii ''system'', content = system\<rparr>,
      \<lparr>role = ascii ''user'', content = finalUser q contexts\<rparr>]"
  by (simp add: buildMessagesWithHistory_def)

lemma cleaned_drop_blank:
  assumes "list_all is_ws (take 4000 (or_empty (content m)))"
  shows "cleaned (body\<lparr>messages := Some (before @ [Some m] @ after)\<rparr>)
           = cleaned (body\<lparr>messages := Some (before @ after)\<rparr>)"
proof -
  from assms have "trim (content (clip (Some m))) = []"
    by (simp add: clip_def trim_all_ws)
  then show ?thesis
    by (simp add: cleaned_def)
qed

lemma cleaned_append:
  "cleaned (body\<lparr>messages := Some (xs @ ys)\<rparr>)
     = cleaned (body\<lparr>messages := Some xs\<rparr>) @ cleaned (body\<lparr>messages := Some ys\<rparr>)"
  by (simp add: cleaned_def)

lemma cleaned_keep:
  assumes "role m = ascii ''user'' \<or> role m = ascii ''assistant''"
    and "\<not> list_all is_ws (take 4000 (or_empty (content m)))"
  shows "cleaned (body\<lparr>messages := Some [Some m]\<rparr>)
           = [\<lparr>role = role m, content = take 4000 (or_empty (content m))\<rparr>]"
proof -
  from assms(2) have "trim (take 4000 (or_empty (content m))) \<noteq> []"
    by (simp add: trim_empty_iff)
  with assms(1) show ?thesis
    by (simp add: cleaned_def role_ok_def clip_def)
qed

lemma length_cleaned: "length (cleaned (body\<lparr>messages := Some xs\<rparr>)) \<le> length xs"
proof -
  have "cleaned (body\<lparr>messages := Some xs\<rparr>)
      = filter (\<lambda>t. length (trim (content t)) > 0) (map clip (filter role_ok xs))"
    by (simp add: cleaned_def)
  then have "length (cleaned (body\<lparr>messages := Some xs\<rparr>))
      \<le> length (map clip (filter role_ok xs))"
    by (simp only: length_filter_le)
  also have "\<dots> \<le> length xs"
    by simp
  finally show ?thesis .
qed

lemma normalizeHistory_keeps:
  assumes ok: "role m = ascii ''user'' \<or> role m = ascii ''assistant''"
    and nb: "\<not> list_all is_ws (take 4000 (or_empty (content m)))"
    and n: "int (length after) < N"
  shows "\<exists>older. normalizeHistory (body\<lparr>messages := Some (before @ [Some m] @ after)\<rparr>) N
           = older @ [\<lparr>role = role m, content = take 4000 (or_empty (content m))\<rparr>]
               @ cleaned (body\<lparr>messages := Some after\<rparr>)"
proof -
  let ?c = "\<lparr>role = role m, content = take 4000 (or_empty (content m))\<rparr>"
  let ?cb = "cleaned (body\<lparr>messages := Some before\<rparr>)"
  let ?ca = "cleaned (body\<lparr>messages := Some after\<rparr>)"
  let ?b = "body\<lparr>messages := Some (before @ [Some m] @ after)\<rparr>"
  have c: "cleaned ?b = ?cb @ [?c] @ ?ca"
    using cleaned_append [where body = body and xs = before and ys = "[Some m] @ after"]
      cleaned_append [where body = body and xs = "[Some m]" and ys = after]
      cleaned_keep [OF ok nb, where body = body]
    by simp
  from n have n1: "1 \<le> N"
    by simp
  then have h: "normalizeHistory ?b N = drop (length (cleaned ?b) - nat N) (cleaned ?b)"
    by (simp add: normalizeHistory_def slice_from_last)
  have "length ?ca \<le> length after"
    by (rule length_cleaned)
  with n have "length (cleaned ?b) - nat N \<le> length ?cb"
    unfolding c by simp
  then have "drop (length (cleaned ?b) - nat N) (?cb @ [?c] @ ?ca)
      = drop (length (cleaned ?b) - nat N) ?cb @ [?c] @ ?ca"
    by simp
  with h c show ?thesis
    by metis
qed

text \<open>
  C10. The normaliser cuts the content of a turn to its first 4000 code units
  before it tests the content for emptiness and before it includes the turn.
  Every turn of the output is a received turn with its content cut so, and no
  content in the output is longer than 4000. A user or assistant turn whose first
  4000 code units are not all white space is included with exactly that cut
  content: it is in the output whenever fewer than \<open>N\<close> turns follow it, it is the
  last turn of the output when it is the last one received, and it is the whole
  output when it is the only one. A turn whose first 4000 code units are all white
  space is dropped, whatever follows them: the output is the same as if the turn
  had not been sent.
\<close>

theorem normalizeHistory_clips:
  "list_all (\<lambda>t. length (content t) \<le> 4000
       \<and> (\<exists>m. Some m \<in> set (case messages body of Some ms \<Rightarrow> ms | None \<Rightarrow> [])
              \<and> role t = role m \<and> content t = take 4000 (or_empty (content m))))
     (normalizeHistory body N)
   \<and> (list_all is_ws (take 4000 (or_empty (content m))) \<longrightarrow>
        normalizeHistory (body\<lparr>messages := Some (before @ [Some m] @ after)\<rparr>) N
          = normalizeHistory (body\<lparr>messages := Some (before @ after)\<rparr>) N)
   \<and> ((role m = ascii ''user'' \<or> role m = ascii ''assistant'')
        \<and> \<not> list_all is_ws (take 4000 (or_empty (content m)))
        \<and> int (length after) < N \<longrightarrow>
        \<lparr>role = role m, content = take 4000 (or_empty (content m))\<rparr>
          \<in> set (normalizeHistory (body\<lparr>messages := Some (before @ [Some m] @ after)\<rparr>) N))
   \<and> ((role m = ascii ''user'' \<or> role m = ascii ''assistant'')
        \<and> \<not> list_all is_ws (take 4000 (or_empty (content m))) \<and> 1 \<le> N \<longrightarrow>
        normalizeHistory (body\<lparr>messages := Some (before @ [Some m])\<rparr>) N \<noteq> []
        \<and> last (normalizeHistory (body\<lparr>messages := Some (before @ [Some m])\<rparr>) N)
            = \<lparr>role = role m, content = take 4000 (or_empty (content m))\<rparr>
        \<and> normalizeHistory (body\<lparr>messages := Some [Some m]\<rparr>) N
            = [\<lparr>role = role m, content = take 4000 (or_empty (content m))\<rparr>])"
proof (intro conjI impI)
  have "length (content t) \<le> 4000
       \<and> (\<exists>m. Some m \<in> set (case messages body of Some ms \<Rightarrow> ms | None \<Rightarrow> [])
              \<and> role t = role m \<and> content t = take 4000 (or_empty (content m)))"
    if "t \<in> set (normalizeHistory body N)" for t
  proof -
    from that have "t \<in> set (cleaned body)"
      unfolding normalizeHistory_def by (rule set_slice_from [THEN subsetD])
    then obtain m where m: "Some m \<in> set (case messages body of Some ms \<Rightarrow> ms | None \<Rightarrow> [])"
        "role t = role m" "content t = take 4000 (or_empty (content m))"
      using cleaned_member(1) by blast
    from m(3) have "length (content t) \<le> 4000"
      by simp
    with m show ?thesis
      by blast
  qed
  then show "list_all (\<lambda>t. length (content t) \<le> 4000
       \<and> (\<exists>m. Some m \<in> set (case messages body of Some ms \<Rightarrow> ms | None \<Rightarrow> [])
              \<and> role t = role m \<and> content t = take 4000 (or_empty (content m))))
     (normalizeHistory body N)"
    by (simp add: list_all_iff)
  show "normalizeHistory (body\<lparr>messages := Some (before @ [Some m] @ after)\<rparr>) N
          = normalizeHistory (body\<lparr>messages := Some (before @ after)\<rparr>) N"
    if "list_all is_ws (take 4000 (or_empty (content m)))"
    using that by (simp only: normalizeHistory_def cleaned_drop_blank)
next
  let ?c = "\<lparr>role = role m, content = take 4000 (or_empty (content m))\<rparr>"
  assume "(role m = ascii ''user'' \<or> role m = ascii ''assistant'')
        \<and> \<not> list_all is_ws (take 4000 (or_empty (content m)))
        \<and> int (length after) < N"
  then obtain older
    where "normalizeHistory (body\<lparr>messages := Some (before @ [Some m] @ after)\<rparr>) N
           = older @ [?c] @ cleaned (body\<lparr>messages := Some after\<rparr>)"
    using normalizeHistory_keeps [where m = m and after = after and N = N and body = body
        and before = before] by blast
  then show "?c \<in> set (normalizeHistory (body\<lparr>messages := Some (before @ [Some m] @ after)\<rparr>) N)"
    by simp
next
  let ?c = "\<lparr>role = role m, content = take 4000 (or_empty (content m))\<rparr>"
  assume a: "(role m = ascii ''user'' \<or> role m = ascii ''assistant'')
        \<and> \<not> list_all is_ws (take 4000 (or_empty (content m))) \<and> 1 \<le> N"
  then have n: "int (length ([] :: ReceivedMsg option list)) < N"
    by simp
  have e: "cleaned (body\<lparr>messages := Some []\<rparr>) = []"
    by (simp add: cleaned_def)
  from a n obtain older
    where o: "normalizeHistory (body\<lparr>messages := Some (before @ [Some m] @ [])\<rparr>) N
           = older @ [?c] @ cleaned (body\<lparr>messages := Some []\<rparr>)"
    using normalizeHistory_keeps [where m = m and after = "[]" and N = N and body = body
        and before = before] by blast
  then have o': "normalizeHistory (body\<lparr>messages := Some (before @ [Some m])\<rparr>) N = older @ [?c]"
    by (simp add: e)
  then show "normalizeHistory (body\<lparr>messages := Some (before @ [Some m])\<rparr>) N \<noteq> []"
    by simp
  from o' show "last (normalizeHistory (body\<lparr>messages := Some (before @ [Some m])\<rparr>) N) = ?c"
    by simp
  from a have "cleaned (body\<lparr>messages := Some [Some m]\<rparr>) = [?c]"
    by (simp add: cleaned_keep)
  moreover from a have "1 \<le> N"
    by blast
  then have "Suc 0 - nat N = 0"
    by arith
  ultimately show "normalizeHistory (body\<lparr>messages := Some [Some m]\<rparr>) N = [?c]"
    using a by (simp add: normalizeHistory_def slice_from_last)
qed

theorem normalizeHistory_clips_witness:
  "list_all is_ws (take 4000 (replicate 4000 0x20 @ ascii ''x''))
   \<and> \<not> list_all is_ws (replicate 4000 0x20 @ ascii ''x'')
   \<and> normalizeHistory body_padded 60 = []
   \<and> length (replicate 4000 (0x61 :: 16 word) @ ascii ''b'') = 4001
   \<and> normalizeHistory body_long 60
       = [\<lparr>role = ascii ''assistant'', content = replicate 4000 0x61\<rparr>]"
proof -
  let ?m = "\<lparr>role = ascii ''user'', content = Some (replicate 4000 0x20 @ ascii ''x'')\<rparr>"
  let ?l = "\<lparr>role = ascii ''assistant'', content = Some (replicate 4000 0x61 @ ascii ''b'')\<rparr>"
  have w: "list_all is_ws (take 4000 (replicate 4000 0x20 @ ascii ''x''))"
    by (simp add: list_all_iff is_ws_def)
  have n: "\<not> list_all is_ws (replicate 4000 0x20 @ ascii ''x'')"
    by (simp add: is_ws_def ascii_def)
  from w have "list_all is_ws (take 4000 (or_empty (content ?m)))"
    by (simp add: or_empty_def)
  then have "normalizeHistory (body_padded\<lparr>messages := Some ([] @ [Some ?m] @ [])\<rparr>) 60
      = normalizeHistory (body_padded\<lparr>messages := Some ([] @ [])\<rparr>) 60"
    using normalizeHistory_clips [where body = body_padded and N = 60 and m = ?m
        and before = "[]" and after = "[]"] by blast
  moreover have "body_padded\<lparr>messages := Some ([] @ [Some ?m] @ [])\<rparr> = body_padded"
    by (simp add: body_padded_def)
  moreover have "normalizeHistory (body_padded\<lparr>messages := Some ([] @ [])\<rparr>) 60 = []"
    by (simp add: normalizeHistory_def cleaned_def slice_from_def)
  ultimately have p: "normalizeHistory body_padded 60 = []"
    by simp
  have t: "take 4000 (or_empty (content ?l)) = replicate 4000 0x61"
    by (simp add: or_empty_def)
  have "\<not> list_all is_ws (replicate 4000 (0x61 :: 16 word))"
    by (simp add: list_all_iff is_ws_def)
  with t have k: "(role ?l = ascii ''user'' \<or> role ?l = ascii ''assistant'')
        \<and> \<not> list_all is_ws (take 4000 (or_empty (content ?l))) \<and> (1 :: int) \<le> 60"
    by simp
  have "normalizeHistory (body_long\<lparr>messages := Some [Some ?l]\<rparr>) 60
      = [\<lparr>role = role ?l, content = take 4000 (or_empty (content ?l))\<rparr>]"
    using normalizeHistory_clips [where body = body_long and N = 60 and m = ?l
        and before = "[]" and after = "[]"] k by blast
  moreover have "body_long\<lparr>messages := Some [Some ?l]\<rparr> = body_long"
    by (simp add: body_long_def)
  ultimately have l: "normalizeHistory body_long 60
       = [\<lparr>role = ascii ''assistant'', content = replicate 4000 0x61\<rparr>]"
    using t by simp
  have "length (replicate 4000 (0x61 :: 16 word) @ ascii ''b'') = 4001"
    by (simp add: ascii_def)
  with w n p l show ?thesis
    by blast
qed

subsection \<open>Prompt Assembler\<close>

lemma join_nonempty:
  assumes "xs \<noteq> []" and "hd xs \<noteq> []"
  shows "join sep xs \<noteq> []"
proof (cases xs)
  case Nil
  with assms show ?thesis by simp
next
  case (Cons x rest)
  with assms show ?thesis by (cases rest) simp_all
qed

lemma map_enumerate_nth:
  "map (\<lambda>(i, c). f i c) (enumerate 0 xs) = map (\<lambda>i. f i (xs ! i)) [0..<length xs]"
  by (rule nth_equalityI) (simp_all add: nth_enumerate_eq)

lemma entry_untrimmed:
  assumes "text c \<noteq> []" and "trim (text c) = text c"
  shows "entry i c =
           ascii ''[#'' @ decimal (i + 1) @ ascii ''] source: '' @ source c @ [0xA] @ text c"
proof -
  let ?s = "ascii ''[#'' @ decimal (i + 1) @ ascii ''] source: '' @ source c @ [0xA] @ text c"
  have a: "ascii ''[#'' = [0x5B, 0x23]"
    by (simp add: ascii_def)
  from assms have "\<not> is_ws (last (trim (text c)))"
    by (intro trim_ends) simp
  with assms have l: "\<not> is_ws (last ?s)"
    by simp
  have h: "\<not> is_ws (hd ?s)"
    by (simp add: a is_ws_def)
  have "?s \<noteq> []"
    by (simp add: a)
  then have "trim ?s = ?s"
    using h l by (rule trim_noop)
  then show ?thesis
    by (simp add: entry_def)
qed

lemma Msg_copy: "map (\<lambda>m. \<lparr>role = role m, content = content m\<rparr>) (history :: ClientMsg list) = history"
  by (induction history) simp_all

lemma decimal_1: "decimal (Suc 0) = ascii ''1''"
  by (simp add: decimal.simps ascii_def)

lemma decimal_2: "decimal (Suc (Suc 0)) = ascii ''2''"
  by (simp add: decimal.simps ascii_def)

lemma finalUser_layout:
  assumes ok: "list_all (\<lambda>c. text c \<noteq> [] \<and> trim (text c) = text c) contexts"
  shows "finalUser q contexts =
           heading_context
           @ (if contexts = [] then no_context
              else join [0xA, 0xA]
                (map (\<lambda>i. ascii ''[#'' @ decimal (i + 1) @ ascii ''] source: ''
                            @ source (contexts ! i) @ [0xA] @ text (contexts ! i))
                   [0..<length contexts]))
           @ heading_question @ q @ heading_answer"
proof -
  let ?plain = "\<lambda>i. ascii ''[#'' @ decimal (i + 1) @ ascii ''] source: ''
                            @ source (contexts ! i) @ [0xA] @ text (contexts ! i)"
  have e: "entry i (contexts ! i) = ?plain i" if "i < length contexts" for i
  proof -
    from that ok have "text (contexts ! i) \<noteq> [] \<and> trim (text (contexts ! i)) = text (contexts ! i)"
      by (simp add: list_all_length)
    then show ?thesis
      by (simp add: entry_untrimmed)
  qed
  have "ctx contexts = join [0xA, 0xA] (map (\<lambda>i. entry i (contexts ! i)) [0..<length contexts])"
    by (simp add: ctx_def map_enumerate_nth)
  also have "map (\<lambda>i. entry i (contexts ! i)) [0..<length contexts] = map ?plain [0..<length contexts]"
    using e by simp
  finally have c: "ctx contexts = join [0xA, 0xA] (map ?plain [0..<length contexts])" .
  have "ctx contexts \<noteq> []" if "contexts \<noteq> []"
  proof -
    from that have "map ?plain [0..<length contexts] \<noteq> []"
      by simp
    moreover have "hd (map ?plain [0..<length contexts]) \<noteq> []"
      using that by (simp add: hd_map ascii_def)
    ultimately show ?thesis
      unfolding c by (rule join_nonempty)
  qed
  moreover have "ctx [] = []"
    by (simp add: ctx_def enumerate_eq_zip)
  ultimately have "(if ctx contexts \<noteq> [] then ctx contexts else no_context)
      = (if contexts = [] then no_context else join [0xA, 0xA] (map ?plain [0..<length contexts]))"
    using c by auto
  then show ?thesis
    by (simp only: finalUser_def)
qed

text \<open>What \<open>searchSupabase\<close> returns is a list of such records.\<close>

lemma normalizeRows_trimmed:
  "list_all (\<lambda>c. text c \<noteq> [] \<and> trim (text c) = text c)
     (map (\<lambda>e. \<lparr>text = text e, source = source e\<rparr>) (normalizeRows rows))"
  by (auto simp: list_all_iff normalizeRows_def normalizeRow_def trim_idem)

text \<open>
  C4. For every query, history and list of evidence records, the prompt is the
  system block, then the history turns themselves in their order, then one user
  block whose content is the context heading, the digest, the question heading,
  the query and the answer heading. The digest is the placeholder when there is no
  evidence; otherwise record \<open>i\<close> (counted from 0) is rendered as
  "[#i+1] source: " followed by its source, a line feed and its text, and the
  entries are joined by a blank line in their order. An evidence record is what
  \<open>searchSupabase\<close> returns: its text is trimmed and not empty. The code trims
  every entry, which changes nothing on such a record.
\<close>

theorem buildMessagesWithHistory_layout:
  "list_all (\<lambda>c. text c \<noteq> [] \<and> trim (text c) = text c) contexts \<longrightarrow>
     buildMessagesWithHistory q history contexts =
       [\<lparr>role = ascii ''system'', content = system\<rparr>] @ history @
       [\<lparr>role = ascii ''user'',
         content =
           heading_context
           @ (if contexts = [] then no_context
              else join [0xA, 0xA]
                (map (\<lambda>i. ascii ''[#'' @ decimal (i + 1) @ ascii ''] source: ''
                            @ source (contexts ! i) @ [0xA] @ text (contexts ! i))
                   [0..<length contexts]))
           @ heading_question @ q @ heading_answer\<rparr>]"
proof
  assume "list_all (\<lambda>c. text c \<noteq> [] \<and> trim (text c) = text c) contexts"
  then show "buildMessagesWithHistory q history contexts =
       [\<lparr>role = ascii ''system'', content = system\<rparr>] @ history @
       [\<lparr>role = ascii ''user'',
         content =
           heading_context
           @ (if contexts = [] then no_context
              else join [0xA, 0xA]
                (map (\<lambda>i. ascii ''[#'' @ decimal (i + 1) @ ascii ''] source: ''
                            @ source (contexts ! i) @ [0xA] @ text (contexts ! i))
                   [0..<length contexts]))
           @ heading_question @ q @ heading_answer\<rparr>]"
    by (simp only: buildMessagesWithHistory_def Msg_copy finalUser_layout)
qed

theorem buildMessagesWithHistory_layout_witness:
  "list_all (\<lambda>c. text c \<noteq> [] \<and> trim (text c) = text c) two_records
   \<and> buildMessagesWithHistory (ascii ''Q'')
        [\<lparr>role = ascii ''user'', content = ascii ''hi''\<rparr>] two_records =
       [\<lparr>role = ascii ''system'', content = system\<rparr>,
        \<lparr>role = ascii ''user'', content = ascii ''hi''\<rparr>,
        \<lparr>role = ascii ''user'',
          content = heading_context
            @ ascii ''[#1] source: s1'' @ [0xA] @ ascii ''A'' @ [0xA, 0xA]
            @ ascii ''[#2] source: '' @ [0xA] @ ascii ''B''
            @ heading_question @ ascii ''Q'' @ heading_answer\<rparr>]"
proof -
  have ok: "list_all (\<lambda>c. text c \<noteq> [] \<and> trim (text c) = text c) two_records"
    by (simp add: two_records_def trim_def is_ws_def ascii_def)
  have u: "[0..<length two_records] = [0, 1]"
    by (simp add: two_records_def upt_rec)
  from buildMessagesWithHistory_layout [of two_records "ascii ''Q''"
      "[\<lparr>role = ascii ''user'', content = ascii ''hi''\<rparr>]"] ok
  have "buildMessagesWithHistory (ascii ''Q'')
        [\<lparr>role = ascii ''user'', content = ascii ''hi''\<rparr>] two_records =
       [\<lparr>role = ascii ''system'', content = system\<rparr>] @
       [\<lparr>role = ascii ''user'', content = ascii ''hi''\<rparr>] @
       [\<lparr>role = ascii ''user'',
         content =
           heading_context
           @ (if two_records = [] then no_context
              else join [0xA, 0xA]
                (map (\<lambda>i. ascii ''[#'' @ decimal (i + 1) @ ascii ''] source: ''
                            @ source (two_records ! i) @ [0xA] @ text (two_records ! i))
                   [0..<length two_records]))
           @ heading_question @ ascii ''Q'' @ heading_answer\<rparr>]"
    by (rule mp)
  also have "two_records \<noteq> []"
    by (simp add: two_records_def)
  ultimately show ?thesis
    using ok by (simp add: u decimal_1 decimal_2) (simp add: two_records_def ascii_def)
qed

subsection \<open>The route: POST\<close>

lemma lastUser_body_what: "lastUserFromHistory body_what = ascii ''What is X?''"
  by (simp add: lastUserFromHistory_def body_what_def is_user_def content_of_def or_empty_def
      trim_def is_ws_def ascii_def)

lemma lastUser_body_none: "lastUserFromHistory body_none = []"
  by (simp add: lastUserFromHistory_def body_none_def legacy_query_def or_empty_def)

text \<open>
  C2. When the resolved query is empty, the route answers with status 400 and the
  message "question (or message) is required", and the log of calls is empty: no
  embedding, no search and no completion was asked for, and the response carries
  no answer. When the resolved query is not empty the response is never that
  error, and the services are called.
\<close>

theorem POST_empty_query:
  "(lastUserFromHistory body = [] \<longrightarrow>
      POST cfg svc body = (Failure 400 (ascii ''question (or message) is required''), []))
   \<and> (lastUserFromHistory body \<noteq> [] \<longrightarrow>
        (\<forall>msg. fst (POST cfg svc body) \<noteq> Failure 400 msg)
        \<and> snd (POST cfg svc body) \<noteq> [])"
proof (intro conjI impI allI)
  assume "lastUserFromHistory body = []"
  then show "POST cfg svc body = (Failure 400 (ascii ''question (or message) is required''), [])"
    by (simp add: POST_def)
next
  fix msg
  assume "lastUserFromHistory body \<noteq> []"
  then show "fst (POST cfg svc body) \<noteq> Failure 400 msg"
    by (simp add: POST_def Let_def server_error_def split: prod.splits sum.splits)
next
  assume q: "lastUserFromHistory body \<noteq> []"
  obtain res calls
    where s: "searchSupabase cfg svc (lastUserFromHistory body) (effective_top_k body) = (res, calls)"
    by (cases "searchSupabase cfg svc (lastUserFromHistory body) (effective_top_k body)")
  have "snd (searchSupabase cfg svc (lastUserFromHistory body) (effective_top_k body)) \<noteq> []"
    by (simp add: searchSupabase_def Let_def split: sum.splits option.splits)
  with s have "calls \<noteq> []"
    by simp
  with q s show "snd (POST cfg svc body) \<noteq> []"
    by (simp add: POST_def Let_def split: sum.splits)
qed

theorem POST_empty_query_witness:
  "lastUserFromHistory body_none = []
   \<and> POST cfg_default (svc_stub []) body_none
       = (Failure 400 (ascii ''question (or message) is required''), [])
   \<and> lastUserFromHistory body_what \<noteq> []
   \<and> (\<forall>msg. fst (POST cfg_default (svc_stub []) body_what) \<noteq> Failure 400 msg)
   \<and> snd (POST cfg_default (svc_stub []) body_what) \<noteq> []"
proof -
  have n: "lastUserFromHistory body_none = []"
    by (rule lastUser_body_none)
  have w: "lastUserFromHistory body_what \<noteq> []"
    by (simp add: lastUser_body_what ascii_def)
  from n POST_empty_query [of body_none cfg_default "svc_stub []"]
  have "POST cfg_default (svc_stub []) body_none
       = (Failure 400 (ascii ''question (or message) is required''), [])"
    by blast
  moreover from w POST_empty_query [of body_what cfg_default "svc_stub []"]
  have "(\<forall>msg. fst (POST cfg_default (svc_stub []) body_what) \<noteq> Failure 400 msg)
      \<and> snd (POST cfg_default (svc_stub []) body_what) \<noteq> []"
    by blast
  ultimately show ?thesis
    using n w by blast
qed

text \<open>
  The successful run of the route, and the only way to an answer: the query is not
  empty, the embedding service returns a vector, the search returns no error, and
  the completion service returns its choices.
\<close>

lemma POST_success:
  assumes "lastUserFromHistory body \<noteq> []"
    and "embeddings_create svc (lastUserFromHistory body) = Inr qEmb"
    and "args = \<lparr>query_embedding = qEmb, match_count = effective_top_k body,
                  match_threshold = (if MATCH_THRESHOLD cfg > 0 then Some (MATCH_THRESHOLD cfg)
                                     else None)\<rparr>"
    and "supabase_rpc svc (RPC_NAME cfg) args = Inr \<lparr>rpc_data = data, rpc_error = None\<rparr>"
    and "retrieved = normalizeRows (case data of Some rows \<Rightarrow> rows | None \<Rightarrow> [])"
    and "request =
           \<lparr>chat_model = (case OPENAI_CHAT_MODEL cfg of Some m \<Rightarrow> m
                           | None \<Rightarrow> ascii ''gpt-4.1-mini''),
            chat_messages = buildMessagesWithHistory (lastUserFromHistory body)
              (normalizeHistory body 60)
              (map (\<lambda>e. \<lparr>text = text e, source = source e\<rparr>) retrieved),
            temperature = 1 / 5\<rparr>"
    and "chat_completions_create svc request = Inr choices"
  shows "POST cfg svc body =
    (Answer \<lparr>answer = first_content choices,
             references = map (\<lambda>e. \<lparr>ref_source = source e, ref_score = similarity e\<rparr>) retrieved,
             meta = \<lparr>meta_top_k = effective_top_k body, meta_rpc = RPC_NAME cfg,
                     meta_hits = length retrieved, meta_threshold = MATCH_THRESHOLD cfg,
                     meta_used_history = length (normalizeHistory body 60)\<rparr>\<rparr>,
     [EmbeddingCall (lastUserFromHistory body), RpcCall (RPC_NAME cfg) args, ChatCall request])"
proof -
  from assms(2,3,4,5)
  have "searchSupabase cfg svc (lastUserFromHistory body) (effective_top_k body)
      = (Inr retrieved, [EmbeddingCall (lastUserFromHistory body), RpcCall (RPC_NAME cfg) args])"
    by (simp add: searchSupabase_def Let_def)
  with assms(1,6,7) show ?thesis
    by (simp add: POST_def Let_def)
qed

lemma searchSupabase_Inr:
  assumes "searchSupabase cfg svc query topK = (Inr retrieved, calls)"
  shows "\<exists>qEmb data.
           embeddings_create svc query = Inr qEmb
           \<and> supabase_rpc svc (RPC_NAME cfg)
                \<lparr>query_embedding = qEmb, match_count = topK,
                 match_threshold = (if MATCH_THRESHOLD cfg > 0 then Some (MATCH_THRESHOLD cfg)
                                    else None)\<rparr>
               = Inr \<lparr>rpc_data = data, rpc_error = None\<rparr>
           \<and> retrieved = normalizeRows (case data of Some rows \<Rightarrow> rows | None \<Rightarrow> [])
           \<and> calls = [EmbeddingCall query, RpcCall (RPC_NAME cfg)
                \<lparr>query_embedding = qEmb, match_count = topK,
                 match_threshold = (if MATCH_THRESHOLD cfg > 0 then Some (MATCH_THRESHOLD cfg)
                                    else None)\<rparr>]"
proof -
  let ?args = "\<lambda>qEmb. \<lparr>query_embedding = qEmb, match_count = topK,
                 match_threshold = (if MATCH_THRESHOLD cfg > 0 then Some (MATCH_THRESHOLD cfg)
                                    else None)\<rparr>"
  from assms obtain qEmb where e: "embeddings_create svc query = Inr qEmb"
    by (cases "embeddings_create svc query") (simp_all add: searchSupabase_def)
  with assms obtain res where r: "supabase_rpc svc (RPC_NAME cfg) (?args qEmb) = Inr res"
    by (cases "supabase_rpc svc (RPC_NAME cfg) (?args qEmb)")
      (simp_all add: searchSupabase_def Let_def)
  with assms e have n: "rpc_error res = None"
    by (cases "rpc_error res") (simp_all add: searchSupabase_def Let_def)
  then have "res = \<lparr>rpc_data = rpc_data res, rpc_error = None\<rparr>"
    by simp
  moreover from assms e r n
  have "retrieved = normalizeRows (case rpc_data res of Some rows \<Rightarrow> rows | None \<Rightarrow> [])"
      "calls = [EmbeddingCall query, RpcCall (RPC_NAME cfg) (?args qEmb)]"
    by (simp_all add: searchSupabase_def Let_def)
  ultimately show ?thesis
    using e r by metis
qed


lemma effective_top_k_cases:
  "effective_top_k body =
     (case top_k body of None \<Rightarrow> 20
      | Some k \<Rightarrow> if k < 1 then 1 else if 60 < k then 60 else k)"
  by (simp add: effective_top_k_def max_def min_def split: option.splits)

lemma POST_Answer:
  assumes "POST cfg svc body = (Answer r, calls)"
  shows "\<exists>qEmb data choices args retrieved request.
           lastUserFromHistory body \<noteq> []
           \<and> embeddings_create svc (lastUserFromHistory body) = Inr qEmb
           \<and> args = \<lparr>query_embedding = qEmb, match_count = effective_top_k body,
                  match_threshold = (if MATCH_THRESHOLD cfg > 0 then Some (MATCH_THRESHOLD cfg)
                                     else None)\<rparr>
           \<and> supabase_rpc svc (RPC_NAME cfg) args = Inr \<lparr>rpc_data = data, rpc_error = None\<rparr>
           \<and> retrieved = normalizeRows (case data of Some rows \<Rightarrow> rows | None \<Rightarrow> [])
           \<and> request =
                \<lparr>chat_model = (case OPENAI_CHAT_MODEL cfg of Some m \<Rightarrow> m
                                | None \<Rightarrow> ascii ''gpt-4.1-mini''),
                 chat_messages = buildMessagesWithHistory (lastUserFromHistory body)
                   (normalizeHistory body 60)
                   (map (\<lambda>e. \<lparr>text = text e, source = source e\<rparr>) retrieved),
                 temperature = 1 / 5\<rparr>
           \<and> chat_completions_create svc request = Inr choices"
proof -
  let ?q = "lastUserFromHistory body"
  from assms have q: "?q \<noteq> []"
    by (auto simp: POST_def)
  obtain res calls' where s: "searchSupabase cfg svc ?q (effective_top_k body) = (res, calls')"
    by (cases "searchSupabase cfg svc ?q (effective_top_k body)")
  with assms q obtain retrieved where r: "res = Inr retrieved"
    by (cases res) (simp_all add: POST_def server_error_def)
  let ?request = "\<lparr>chat_model = (case OPENAI_CHAT_MODEL cfg of Some m \<Rightarrow> m
                                | None \<Rightarrow> ascii ''gpt-4.1-mini''),
                 chat_messages = buildMessagesWithHistory ?q (normalizeHistory body 60)
                   (map (\<lambda>e. \<lparr>text = text e, source = source e\<rparr>) retrieved),
                 temperature = 1 / 5\<rparr>"
  from assms q s r obtain choices where c: "chat_completions_create svc ?request = Inr choices"
    by (cases "chat_completions_create svc ?request")
      (simp_all add: POST_def Let_def server_error_def)
  from searchSupabase_Inr [OF s [unfolded r]] c q show ?thesis
    by blast
qed

lemma effective_top_k_body_what: "effective_top_k body_what = 60"
  by (simp add: effective_top_k_def body_what_def)

lemma POST_body_what:
  "POST cfg_default (svc_stub choices) body_what =
    (Answer \<lparr>answer = first_content choices,
             references = map (\<lambda>e. \<lparr>ref_source = source e, ref_score = similarity e\<rparr>)
               (normalizeRows [row_doc1]),
             meta = \<lparr>meta_top_k = 60, meta_rpc = ascii ''match_documents'',
                     meta_hits = length (normalizeRows [row_doc1]), meta_threshold = 0,
                     meta_used_history = length (normalizeHistory body_what 60)\<rparr>\<rparr>,
     [EmbeddingCall (ascii ''What is X?''),
      RpcCall (ascii ''match_documents'')
        \<lparr>query_embedding = [1, 0], match_count = 60, match_threshold = None\<rparr>,
      ChatCall \<lparr>chat_model = ascii ''gpt-4.1-mini'',
                chat_messages = buildMessagesWithHistory (ascii ''What is X?'')
                  (normalizeHistory body_what 60)
                  (map (\<lambda>e. \<lparr>text = text e, source = source e\<rparr>) (normalizeRows [row_doc1])),
                temperature = 1 / 5\<rparr>])"
proof -
  have "lastUserFromHistory body_what \<noteq> []"
    by (simp add: lastUser_body_what ascii_def)
  then show ?thesis
    by (simp add: POST_def Let_def searchSupabase_def svc_stub_def cfg_default_def
        effective_top_k_body_what lastUser_body_what)
qed

lemma normalizeRows_row_doc1:
  "normalizeRows [row_doc1] =
     [\<lparr>text = ascii ''X is a company.'', source = ascii ''doc1'', similarity = 9 / 10\<rparr>]"
  by (simp add: normalizeRows_def normalizeRow_def row_doc1_def no_fields_def or_empty_def
      trim_def is_ws_def ascii_def)

text \<open>
  C8. The count reported in \<open>meta.top_k\<close> of an answer, and the \<open>match_count\<close> of
  every search the route makes, is the requested \<open>top_k\<close> clamped to the range from
  1 to 60: 20 when \<open>top_k\<close> is absent, 1 when it is below 1, 60 when it is above 60,
  and the value itself in between.
\<close>

theorem POST_top_k_clamped:
  "(POST cfg svc body = (Answer r, calls) \<longrightarrow>
      meta_top_k (meta r) =
        (case top_k body of None \<Rightarrow> 20
         | Some k \<Rightarrow> if k < 1 then 1 else if 60 < k then 60 else k))
   \<and> (RpcCall name args \<in> set (snd (POST cfg svc body)) \<longrightarrow>
      match_count args =
        (case top_k body of None \<Rightarrow> 20
         | Some k \<Rightarrow> if k < 1 then 1 else if 60 < k then 60 else k))
   \<and> 1 \<le> effective_top_k body \<and> effective_top_k body \<le> 60"
proof (intro conjI impI)
  assume a: "POST cfg svc body = (Answer r, calls)"
  from POST_Answer [OF a] obtain qEmb data choices args retrieved request
    where "lastUserFromHistory body \<noteq> []"
      and "embeddings_create svc (lastUserFromHistory body) = Inr qEmb"
      and "args = \<lparr>query_embedding = qEmb, match_count = effective_top_k body,
                  match_threshold = (if MATCH_THRESHOLD cfg > 0 then Some (MATCH_THRESHOLD cfg)
                                     else None)\<rparr>"
      and "supabase_rpc svc (RPC_NAME cfg) args = Inr \<lparr>rpc_data = data, rpc_error = None\<rparr>"
      and "retrieved = normalizeRows (case data of Some rows \<Rightarrow> rows | None \<Rightarrow> [])"
      and "request =
                \<lparr>chat_model = (case OPENAI_CHAT_MODEL cfg of Some m \<Rightarrow> m
                                | None \<Rightarrow> ascii ''gpt-4.1-mini''),
                 chat_messages = buildMessagesWithHistory (lastUserFromHistory body)
                   (normalizeHistory body 60)
                   (map (\<lambda>e. \<lparr>text = text e, source = source e\<rparr>) retrieved),
                 temperature = 1 / 5\<rparr>"
      and "chat_completions_create svc request = Inr choices"
    by blast
  from POST_success [OF this] a have "meta_top_k (meta r) = effective_top_k body"
    by auto
  then show "meta_top_k (meta r) =
        (case top_k body of None \<Rightarrow> 20
         | Some k \<Rightarrow> if k < 1 then 1 else if 60 < k then 60 else k)"
    by (simp only: effective_top_k_cases)
next
  assume c: "RpcCall name args \<in> set (snd (POST cfg svc body))"
  obtain res cs
    where s: "searchSupabase cfg svc (lastUserFromHistory body) (effective_top_k body) = (res, cs)"
    by (cases "searchSupabase cfg svc (lastUserFromHistory body) (effective_top_k body)")
  from c s have "RpcCall name args \<in> set cs"
    by (auto simp: POST_def Let_def split: if_splits sum.splits)
  with s have "RpcCall name args
      \<in> set (snd (searchSupabase cfg svc (lastUserFromHistory body) (effective_top_k body)))"
    by simp
  then have "match_count args = effective_top_k body"
    by (auto simp: searchSupabase_def Let_def split: sum.splits option.splits)
  then show "match_count args =
        (case top_k body of None \<Rightarrow> 20
         | Some k \<Rightarrow> if k < 1 then 1 else if 60 < k then 60 else k)"
    by (simp only: effective_top_k_cases)
next
  show "1 \<le> effective_top_k body"
    by (simp add: effective_top_k_def)
  show "effective_top_k body \<le> 60"
    by (simp add: effective_top_k_def)
qed

theorem POST_top_k_clamped_witness:
  "top_k body_what = Some 100
   \<and> (\<exists>r calls name args. POST cfg_default (svc_stub []) body_what = (Answer r, calls)
         \<and> RpcCall name args \<in> set calls
         \<and> meta_top_k (meta r) = 60 \<and> match_count args = 60)"
proof -
  have t: "top_k body_what = Some 100"
    by (simp add: body_what_def)
  obtain r calls where p: "POST cfg_default (svc_stub []) body_what = (Answer r, calls)"
    and c: "RpcCall (ascii ''match_documents'')
        \<lparr>query_embedding = [1, 0], match_count = 60, match_threshold = None\<rparr> \<in> set calls"
    using POST_body_what [of "[]"] by simp
  from c p have c': "RpcCall (ascii ''match_documents'')
        \<lparr>query_embedding = [1, 0], match_count = 60, match_threshold = None\<rparr>
      \<in> set (snd (POST cfg_default (svc_stub []) body_what))"
    by simp
  from POST_top_k_clamped [of cfg_default "svc_stub []" body_what r calls] p t
  have "meta_top_k (meta r) = 60"
    by simp
  moreover
  from POST_top_k_clamped [of cfg_default "svc_stub []" body_what r calls
      "ascii ''match_documents''"
      "\<lparr>query_embedding = [1, 0], match_count = 60, match_threshold = None\<rparr>"] c' t
  have "match_count \<lparr>query_embedding = [1, 0], match_count = 60, match_threshold = None\<rparr>
      = (60 :: rat)"
    by simp
  ultimately show ?thesis
    using t p c by blast
qed

lemma first_content_cases:
  "first_content choices =
     (case choices of [] \<Rightarrow> [] | Choice None # _ \<Rightarrow> [] | Choice (Some None) # _ \<Rightarrow> []
      | Choice (Some (Some s)) # _ \<Rightarrow> s)"
  by (simp add: first_content_def split: list.splits Choice.splits option.splits)

lemma final_block_aligned:
  assumes "retrieved = normalizeRows rows"
    and "refs = map (\<lambda>e. \<lparr>ref_source = source e, ref_score = similarity e\<rparr>) retrieved"
  shows "content (last (buildMessagesWithHistory q history
            (map (\<lambda>e. \<lparr>text = text e, source = source e\<rparr>) retrieved))) =
         heading_context
         @ (if refs = [] then no_context
            else join [0xA, 0xA]
              (map (\<lambda>i. ascii ''[#'' @ decimal (i + 1) @ ascii ''] source: ''
                          @ ref_source (refs ! i) @ [0xA] @ text (retrieved ! i))
                 [0..<length refs]))
         @ heading_question @ q @ heading_answer"
proof -
  let ?cs = "map (\<lambda>e. \<lparr>text = text e, source = source e\<rparr>) retrieved"
  have "list_all (\<lambda>c. text c \<noteq> [] \<and> trim (text c) = text c) ?cs"
    unfolding assms(1) by (rule normalizeRows_trimmed)
  then have "finalUser q ?cs =
           heading_context
           @ (if ?cs = [] then no_context
              else join [0xA, 0xA]
                (map (\<lambda>i. ascii ''[#'' @ decimal (i + 1) @ ascii ''] source: ''
                            @ source (?cs ! i) @ [0xA] @ text (?cs ! i))
                   [0..<length ?cs]))
           @ heading_question @ q @ heading_answer"
    by (rule finalUser_layout)
  moreover have "map (\<lambda>i. ascii ''[#'' @ decimal (i + 1) @ ascii ''] source: ''
                            @ source (?cs ! i) @ [0xA] @ text (?cs ! i)) [0..<length ?cs]
      = map (\<lambda>i. ascii ''[#'' @ decimal (i + 1) @ ascii ''] source: ''
                          @ ref_source (refs ! i) @ [0xA] @ text (retrieved ! i))
                 [0..<length refs]"
    by (simp add: assms(2))
  moreover have "(?cs = []) = (refs = [])"
    by (simp add: assms(2))
  moreover have "content (last (buildMessagesWithHistory q history ?cs)) = finalUser q ?cs"
    by (simp add: buildMessagesWithHistory_def)
  ultimately show ?thesis
    by simp
qed

text \<open>
  C9. When the services answer, the route answers, also when the completion has no
  choice, no message or no content: the answer is then the empty string, and
  otherwise the content of the first choice. The references are the source and
  score of every retrieved record, in the order of the records, and the digest in
  the final user block of the request that was sent numbers the same records in
  the same order: entry \<open>[#i+1]\<close> shows the source of \<open>references[i]\<close>. Every
  answer of the route arises this way.
\<close>

theorem POST_answer_references:
  "(lastUserFromHistory body \<noteq> []
    \<and> embeddings_create svc (lastUserFromHistory body) = Inr qEmb
    \<and> supabase_rpc svc (RPC_NAME cfg)
         \<lparr>query_embedding = qEmb, match_count = effective_top_k body,
          match_threshold = (if MATCH_THRESHOLD cfg > 0 then Some (MATCH_THRESHOLD cfg)
                             else None)\<rparr>
        = Inr \<lparr>rpc_data = data, rpc_error = None\<rparr>
    \<and> retrieved = normalizeRows (case data of Some rows \<Rightarrow> rows | None \<Rightarrow> [])
    \<and> request =
         \<lparr>chat_model = (case OPENAI_CHAT_MODEL cfg of Some m \<Rightarrow> m
                         | None \<Rightarrow> ascii ''gpt-4.1-mini''),
          chat_messages = buildMessagesWithHistory (lastUserFromHistory body)
            (normalizeHistory body 60)
            (map (\<lambda>e. \<lparr>text = text e, source = source e\<rparr>) retrieved),
          temperature = 1 / 5\<rparr>
    \<and> chat_completions_create svc request = Inr choices
    \<longrightarrow> (\<exists>r calls. POST cfg svc body = (Answer r, calls)
          \<and> last calls = ChatCall request
          \<and> answer r =
              (case choices of [] \<Rightarrow> [] | Choice None # _ \<Rightarrow> []
               | Choice (Some None) # _ \<Rightarrow> [] | Choice (Some (Some s)) # _ \<Rightarrow> s)
          \<and> references r
              = map (\<lambda>e. \<lparr>ref_source = source e, ref_score = similarity e\<rparr>) retrieved
          \<and> content (last (chat_messages request)) =
              heading_context
              @ (if references r = [] then no_context
                 else join [0xA, 0xA]
                   (map (\<lambda>i. ascii ''[#'' @ decimal (i + 1) @ ascii ''] source: ''
                               @ ref_source (references r ! i) @ [0xA] @ text (retrieved ! i))
                      [0..<length (references r)]))
              @ heading_question @ lastUserFromHistory body @ heading_answer))
   \<and> (POST cfg svc body = (Answer a, made) \<longrightarrow>
        (\<exists>sent found request choices.
            fst (searchSupabase cfg svc (lastUserFromHistory body) (effective_top_k body))
              = Inr found
            \<and> last made = ChatCall request
            \<and> chat_completions_create svc request = Inr choices
            \<and> answer a =
                (case choices of [] \<Rightarrow> [] | Choice None # _ \<Rightarrow> []
                 | Choice (Some None) # _ \<Rightarrow> [] | Choice (Some (Some s)) # _ \<Rightarrow> s)
            \<and> sent = map (\<lambda>e. \<lparr>text = text e, source = source e\<rparr>) found
            \<and> chat_messages request = buildMessagesWithHistory (lastUserFromHistory body)
                  (normalizeHistory body 60) sent
            \<and> references a
                = map (\<lambda>e. \<lparr>ref_source = source e, ref_score = similarity e\<rparr>) found
            \<and> content (last (chat_messages request)) =
                heading_context
                @ (if references a = [] then no_context
                   else join [0xA, 0xA]
                     (map (\<lambda>i. ascii ''[#'' @ decimal (i + 1) @ ascii ''] source: ''
                                 @ ref_source (references a ! i) @ [0xA] @ text (found ! i))
                        [0..<length (references a)]))
                @ heading_question @ lastUserFromHistory body @ heading_answer))"
proof (intro conjI impI)
  let ?q = "lastUserFromHistory body"
  let ?args = "\<lparr>query_embedding = qEmb, match_count = effective_top_k body,
          match_threshold = (if MATCH_THRESHOLD cfg > 0 then Some (MATCH_THRESHOLD cfg)
                             else None)\<rparr>"
  assume h: "?q \<noteq> []
    \<and> embeddings_create svc ?q = Inr qEmb
    \<and> supabase_rpc svc (RPC_NAME cfg) ?args = Inr \<lparr>rpc_data = data, rpc_error = None\<rparr>
    \<and> retrieved = normalizeRows (case data of Some rows \<Rightarrow> rows | None \<Rightarrow> [])
    \<and> request =
         \<lparr>chat_model = (case OPENAI_CHAT_MODEL cfg of Some m \<Rightarrow> m
                         | None \<Rightarrow> ascii ''gpt-4.1-mini''),
          chat_messages = buildMessagesWithHistory ?q (normalizeHistory body 60)
            (map (\<lambda>e. \<lparr>text = text e, source = source e\<rparr>) retrieved),
          temperature = 1 / 5\<rparr>
    \<and> chat_completions_create svc request = Inr choices"
  let ?r = "\<lparr>answer = first_content choices,
             references = map (\<lambda>e. \<lparr>ref_source = source e, ref_score = similarity e\<rparr>) retrieved,
             meta = \<lparr>meta_top_k = effective_top_k body, meta_rpc = RPC_NAME cfg,
                     meta_hits = length retrieved, meta_threshold = MATCH_THRESHOLD cfg,
                     meta_used_history = length (normalizeHistory body 60)\<rparr>\<rparr>"
  let ?calls = "[EmbeddingCall ?q, RpcCall (RPC_NAME cfg) ?args, ChatCall request]"
  from h have h1: "?q \<noteq> []"
    and h2: "embeddings_create svc ?q = Inr qEmb"
    and h3: "supabase_rpc svc (RPC_NAME cfg) ?args = Inr \<lparr>rpc_data = data, rpc_error = None\<rparr>"
    and h4: "retrieved = normalizeRows (case data of Some rows \<Rightarrow> rows | None \<Rightarrow> [])"
    and h5: "request =
         \<lparr>chat_model = (case OPENAI_CHAT_MODEL cfg of Some m \<Rightarrow> m
                         | None \<Rightarrow> ascii ''gpt-4.1-mini''),
          chat_messages = buildMessagesWithHistory ?q (normalizeHistory body 60)
            (map (\<lambda>e. \<lparr>text = text e, source = source e\<rparr>) retrieved),
          temperature = 1 / 5\<rparr>"
    and h6: "chat_completions_create svc request = Inr choices"
    by blast+
  have p: "POST cfg svc body = (Answer ?r, ?calls)"
    by (rule POST_success [OF h1 h2 refl h3 h4 h5 h6])
  have l: "last ?calls = ChatCall request"
    by simp
  have a: "answer ?r =
              (case choices of [] \<Rightarrow> [] | Choice None # _ \<Rightarrow> []
               | Choice (Some None) # _ \<Rightarrow> [] | Choice (Some (Some s)) # _ \<Rightarrow> s)"
    by (simp add: first_content_cases)
  have f: "references ?r
              = map (\<lambda>e. \<lparr>ref_source = source e, ref_score = similarity e\<rparr>) retrieved"
    by simp
  from h5 have "content (last (chat_messages request)) =
              heading_context
              @ (if references ?r = [] then no_context
                 else join [0xA, 0xA]
                   (map (\<lambda>i. ascii ''[#'' @ decimal (i + 1) @ ascii ''] source: ''
                               @ ref_source (references ?r ! i) @ [0xA] @ text (retrieved ! i))
                      [0..<length (references ?r)]))
              @ heading_question @ ?q @ heading_answer"
    using final_block_aligned [OF h4, of "references ?r" ?q "normalizeHistory body 60"]
    by simp
  with p l a f show "\<exists>r calls. POST cfg svc body = (Answer r, calls)
          \<and> last calls = ChatCall request
          \<and> answer r =
              (case choices of [] \<Rightarrow> [] | Choice None # _ \<Rightarrow> []
               | Choice (Some None) # _ \<Rightarrow> [] | Choice (Some (Some s)) # _ \<Rightarrow> s)
          \<and> references r
              = map (\<lambda>e. \<lparr>ref_source = source e, ref_score = similarity e\<rparr>) retrieved
          \<and> content (last (chat_messages request)) =
              heading_context
              @ (if references r = [] then no_context
                 else join [0xA, 0xA]
                   (map (\<lambda>i. ascii ''[#'' @ decimal (i + 1) @ ascii ''] source: ''
                               @ ref_source (references r ! i) @ [0xA] @ text (retrieved ! i))
                      [0..<length (references r)]))
              @ heading_question @ lastUserFromHistory body @ heading_answer"
    by blast
next
  let ?q = "lastUserFromHistory body"
  assume s: "POST cfg svc body = (Answer a, made)"
  from POST_Answer [OF s] obtain qEmb data choices args found request
    where h: "?q \<noteq> []"
      "embeddings_create svc ?q = Inr qEmb"
      "args = \<lparr>query_embedding = qEmb, match_count = effective_top_k body,
                  match_threshold = (if MATCH_THRESHOLD cfg > 0 then Some (MATCH_THRESHOLD cfg)
                                     else None)\<rparr>"
      "supabase_rpc svc (RPC_NAME cfg) args = Inr \<lparr>rpc_data = data, rpc_error = None\<rparr>"
      "found = normalizeRows (case data of Some rows \<Rightarrow> rows | None \<Rightarrow> [])"
      "request =
                \<lparr>chat_model = (case OPENAI_CHAT_MODEL cfg of Some m \<Rightarrow> m
                                | None \<Rightarrow> ascii ''gpt-4.1-mini''),
                 chat_messages = buildMessagesWithHistory ?q (normalizeHistory body 60)
                   (map (\<lambda>e. \<lparr>text = text e, source = source e\<rparr>) found),
                 temperature = 1 / 5\<rparr>"
      "chat_completions_create svc request = Inr choices"
    by blast
  from POST_success [OF h] s
  have a: "a = \<lparr>answer = first_content choices,
             references = map (\<lambda>e. \<lparr>ref_source = source e, ref_score = similarity e\<rparr>) found,
             meta = \<lparr>meta_top_k = effective_top_k body, meta_rpc = RPC_NAME cfg,
                     meta_hits = length found, meta_threshold = MATCH_THRESHOLD cfg,
                     meta_used_history = length (normalizeHistory body 60)\<rparr>\<rparr>"
    and l: "made = [EmbeddingCall ?q, RpcCall (RPC_NAME cfg) args, ChatCall request]"
    by simp_all
  from h(2,3,4,5) have f: "fst (searchSupabase cfg svc ?q (effective_top_k body)) = Inr found"
    by (simp add: searchSupabase_def Let_def)
  from l have l': "last made = ChatCall request"
    by simp
  from a have an: "answer a =
                (case choices of [] \<Rightarrow> [] | Choice None # _ \<Rightarrow> []
                 | Choice (Some None) # _ \<Rightarrow> [] | Choice (Some (Some s)) # _ \<Rightarrow> s)"
    by (simp add: first_content_cases)
  from a have r: "references a
                = map (\<lambda>e. \<lparr>ref_source = source e, ref_score = similarity e\<rparr>) found"
    by simp
  from h(6) have m: "chat_messages request = buildMessagesWithHistory ?q
      (normalizeHistory body 60) (map (\<lambda>e. \<lparr>text = text e, source = source e\<rparr>) found)"
    by simp
  have d: "content (last (chat_messages request)) =
                heading_context
                @ (if references a = [] then no_context
                   else join [0xA, 0xA]
                     (map (\<lambda>i. ascii ''[#'' @ decimal (i + 1) @ ascii ''] source: ''
                                 @ ref_source (references a ! i) @ [0xA] @ text (found ! i))
                        [0..<length (references a)]))
                @ heading_question @ ?q @ heading_answer"
    unfolding m by (rule final_block_aligned [OF h(5) r])
  from f l' h(7) an m r d
  show "\<exists>sent found request choices.
            fst (searchSupabase cfg svc (lastUserFromHistory body) (effective_top_k body))
              = Inr found
            \<and> last made = ChatCall request
            \<and> chat_completions_create svc request = Inr choices
            \<and> answer a =
                (case choices of [] \<Rightarrow> [] | Choice None # _ \<Rightarrow> []
                 | Choice (Some None) # _ \<Rightarrow> [] | Choice (Some (Some s)) # _ \<Rightarrow> s)
            \<and> sent = map (\<lambda>e. \<lparr>text = text e, source = source e\<rparr>) found
            \<and> chat_messages request = buildMessagesWithHistory (lastUserFromHistory body)
                  (normalizeHistory body 60) sent
            \<and> references a
                = map (\<lambda>e. \<lparr>ref_source = source e, ref_score = similarity e\<rparr>) found
            \<and> content (last (chat_messages request)) =
                heading_context
                @ (if references a = [] then no_context
                   else join [0xA, 0xA]
                     (map (\<lambda>i. ascii ''[#'' @ decimal (i + 1) @ ascii ''] source: ''
                                 @ ref_source (references a ! i) @ [0xA] @ text (found ! i))
                        [0..<length (references a)]))
                @ heading_question @ lastUserFromHistory body @ heading_answer"
    by blast
qed


theorem POST_answer_references_witness:
  "\<exists>r calls request.
     POST cfg_default (svc_stub []) body_what = (Answer r, calls)
     \<and> answer r = []
     \<and> references r = [\<lparr>ref_source = ascii ''doc1'', ref_score = 9 / 10\<rparr>]
     \<and> last calls = ChatCall request
     \<and> content (last (chat_messages request)) =
         heading_context @ ascii ''[#1] source: doc1'' @ [0xA] @ ascii ''X is a company.''
         @ heading_question @ ascii ''What is X?'' @ heading_answer"
proof -
  let ?retrieved = "normalizeRows (case Some [row_doc1] of Some rows \<Rightarrow> rows | None \<Rightarrow> [])"
  let ?request = "\<lparr>chat_model = (case OPENAI_CHAT_MODEL cfg_default of Some m \<Rightarrow> m
                         | None \<Rightarrow> ascii ''gpt-4.1-mini''),
          chat_messages = buildMessagesWithHistory (lastUserFromHistory body_what)
            (normalizeHistory body_what 60)
            (map (\<lambda>e. \<lparr>text = text e, source = source e\<rparr>) ?retrieved),
          temperature = 1 / 5\<rparr>"
  have "lastUserFromHistory body_what \<noteq> []"
    by (simp add: lastUser_body_what ascii_def)
  then have h: "lastUserFromHistory body_what \<noteq> []
    \<and> embeddings_create (svc_stub []) (lastUserFromHistory body_what) = Inr [1, 0]
    \<and> supabase_rpc (svc_stub []) (RPC_NAME cfg_default)
         \<lparr>query_embedding = [1, 0], match_count = effective_top_k body_what,
          match_threshold = (if MATCH_THRESHOLD cfg_default > 0
                             then Some (MATCH_THRESHOLD cfg_default) else None)\<rparr>
        = Inr \<lparr>rpc_data = Some [row_doc1], rpc_error = None\<rparr>
    \<and> ?retrieved = normalizeRows (case Some [row_doc1] of Some rows \<Rightarrow> rows | None \<Rightarrow> [])
    \<and> ?request = ?request
    \<and> chat_completions_create (svc_stub []) ?request = Inr []"
    by (simp add: svc_stub_def)
  from POST_answer_references [THEN conjunct1, rule_format, OF h]
  obtain r calls where p: "POST cfg_default (svc_stub []) body_what = (Answer r, calls)"
    and l: "last calls = ChatCall ?request"
    and a: "answer r = []"
    and f: "references r
        = map (\<lambda>e. \<lparr>ref_source = source e, ref_score = similarity e\<rparr>) ?retrieved"
    and d: "content (last (chat_messages ?request)) =
              heading_context
              @ (if references r = [] then no_context
                 else join [0xA, 0xA]
                   (map (\<lambda>i. ascii ''[#'' @ decimal (i + 1) @ ascii ''] source: ''
                               @ ref_source (references r ! i) @ [0xA] @ text (?retrieved ! i))
                      [0..<length (references r)]))
              @ heading_question @ lastUserFromHistory body_what @ heading_answer"
    by auto
  from f have f': "references r = [\<lparr>ref_source = ascii ''doc1'', ref_score = 9 / 10\<rparr>]"
    by (simp add: normalizeRows_row_doc1)
  have "content (last (chat_messages ?request)) =
         heading_context @ ascii ''[#1] source: doc1'' @ [0xA] @ ascii ''X is a company.''
         @ heading_question @ ascii ''What is X?'' @ heading_answer"
    unfolding d f' by (simp add: normalizeRows_row_doc1 decimal_1 lastUser_body_what ascii_def)
  with p a f' l show ?thesis
    by blast
qed

end
